theory Spec2Isabelle
  imports Main "HOL-Library.Sublist"
begin

section \<open>JavaScript values used by the packager's development servers\<close>

subsection \<open>Objects used as dictionaries\<close>

text \<open>
  \<^verbatim>\<open>attachHMRServer.js\<close> keeps its caches in objects made by
  \<^verbatim>\<open>Object.create(null)\<close>: dictionaries with string keys and no inherited
  property. Such an object is an association list in the order the keys were first
  written. Writing an existing key keeps the key's place and replaces its value; reading
  an absent key gives \<^verbatim>\<open>undefined\<close> (\<open>None\<close>).
\<close>

type_synonym 'v jsobj = "(string \<times> 'v) list"

fun obj_set :: "'v jsobj \<Rightarrow> string \<Rightarrow> 'v \<Rightarrow> 'v jsobj" where
  "obj_set [] k v = [(k, v)]"
| "obj_set ((k', v') # kvs) k v =
     (if k' = k then (k, v) # kvs else (k', v') # obj_set kvs k v)"

definition obj_get :: "'v jsobj \<Rightarrow> string \<Rightarrow> 'v option" where
  "obj_get obj k = map_of obj k"

text \<open>
  \<^verbatim>\<open>Object.keys\<close> does not list the keys in the order they were written when some
  of them are array indices (the canonical decimal spelling of an integer below
  \<open>2\<^sup>3\<^sup>2 - 1\<close>): those come first, in ascending numeric order, and the other keys
  follow in the order they were written.
\<close>

definition is_digit :: "char \<Rightarrow> bool" where
  "is_digit c = (c \<in> set ''0123456789'')"

definition index_value :: "string \<Rightarrow> nat" where
  "index_value s = foldl (\<lambda>n c. 10 * n + (of_char c - 48)) 0 s"

definition is_array_index :: "string \<Rightarrow> bool" where
  "is_array_index s =
     (s \<noteq> [] \<and> list_all is_digit s \<and> (s = ''0'' \<or> hd s \<noteq> CHR ''0'')
      \<and> index_value s < 4294967295)"

definition obj_keys :: "'v jsobj \<Rightarrow> string list" where
  "obj_keys obj =
     sort_key index_value (filter is_array_index (map fst obj))
     @ filter (\<lambda>k. \<not> is_array_index k) (map fst obj)"

subsection \<open>\<^verbatim>\<open>arrayEquals\<close>\<close>

text \<open>
  \<^verbatim>\<open>
  function arrayEquals(arrayA, arrayB) {
    arrayA = arrayA || [];
    arrayB = arrayB || [];
    return arrayA.length === arrayB.length && arrayA.every(function (element, index) {
      return element === arrayB[index];
    });
  }
  \<close>
  An argument is an array of strings or \<^verbatim>\<open>undefined\<close> (\<open>None\<close>). The
  elements are read by index only when the lengths agree, so every read is in range.
\<close>

definition or_empty :: "'a list option \<Rightarrow> 'a list" where
  "or_empty a = (case a of None \<Rightarrow> [] | Some xs \<Rightarrow> xs)"

definition arrayEquals :: "string list option \<Rightarrow> string list option \<Rightarrow> bool" where
  "arrayEquals arrayA arrayB =
     (let a = or_empty arrayA; b = or_empty arrayB
      in length a = length b \<and> list_all (\<lambda>index. a ! index = b ! index) [0..<length a])"

subsection \<open>The address of the HTTP server\<close>

text \<open>
  \<^verbatim>\<open>httpServer.address()\<close> gives an object with the fields \<^verbatim>\<open>address\<close>
  and \<^verbatim>\<open>port\<close>; a missing \<^verbatim>\<open>address\<close> is \<open>None\<close>.
  \<^verbatim>\<open>
  var packagerHost = 'localhost';
  if (httpServer.address().address && httpServer.address().address !== '::'
      && httpServer.address().address !== '') {
    packagerHost = httpServerAddress.address;
  }
  \<close>
  A string is falsy exactly when it is empty.
\<close>

record http_address =
  address :: "string option"
  port :: nat

definition truthy_string :: "string option \<Rightarrow> bool" where
  "truthy_string s = (case s of None \<Rightarrow> False | Some t \<Rightarrow> t \<noteq> [])"

definition packagerHost :: "http_address \<Rightarrow> string" where
  "packagerHost httpServerAddress =
     (if truthy_string (address httpServerAddress)
         \<and> address httpServerAddress \<noteq> Some ''::''
         \<and> address httpServerAddress \<noteq> Some ''''
      then the (address httpServerAddress)
      else ''localhost'')"

text \<open>
  The specification speaks of a listening address that is "a wildcard or empty". The
  wildcard addresses of the two address families are \<^verbatim>\<open>0.0.0.0\<close> (IPv4) and
  \<^verbatim>\<open>::\<close> (IPv6); this predicate follows the specification's words, not the code.
\<close>

definition spec_wildcard_or_empty :: "string option \<Rightarrow> bool" where
  "spec_wildcard_or_empty a =
     (case a of None \<Rightarrow> True | Some s \<Rightarrow> s = '''' \<or> s = ''::'' \<or> s = ''0.0.0.0'')"

section \<open>The Hot Module Replacement server (\<^verbatim>\<open>attachHMRServer.js\<close>)\<close>

subsection \<open>Collaborators\<close>

text \<open>
  A module handle is the object the resolver gives for a file. \<^verbatim>\<open>dep.getName()\<close>
  resolves to \<open>mod_name\<close>; the three flags are what \<^verbatim>\<open>dep.isAsset()\<close>,
  \<^verbatim>\<open>dep.isAsset_DEPRECATED()\<close> and \<^verbatim>\<open>dep.isJSON()\<close> answer.
\<close>

record module =
  mod_path :: string
  mod_name :: string
  isAsset :: bool
  isAsset_DEPRECATED :: bool
  isJSON :: bool

text \<open>
  A resolution response holds the ordered dependency list; \<^verbatim>\<open>response.copy\<close>
  replaces that list and keeps the rest (\<open>mainModuleId\<close> stands for it).
\<close>

record response =
  dependencies :: "module list"
  mainModuleId :: string

definition copy :: "response \<Rightarrow> module list \<Rightarrow> response" where
  "copy r deps = r\<lparr>dependencies := deps\<rparr>"

text \<open>
  A promise is rejected with any value. Reading a property of \<^verbatim>\<open>null\<close> or
  \<^verbatim>\<open>undefined\<close> throws; every other value is read as an object whose fields may be
  missing (a string or a number has none of them).
\<close>

record js_error =
  err_type :: "string option"
  err_description :: "string option"
  err_filename :: "string option"
  err_lineNumber :: "int option"

datatype rejection = Nullish | Thrown js_error

text \<open>The options object of \<^verbatim>\<open>packagerServer.getDependencies\<close>; \<open>rq_recursive = None\<close> when the property is not given.\<close>

record dep_request =
  rq_platform :: string
  rq_dev :: bool
  rq_entryFile :: string
  rq_recursive :: "bool option"

text \<open>
  The value handed on as \<^verbatim>\<open>resolutionResponse\<close>: a response, or the \<^verbatim>\<open>[]\<close> and
  \<^verbatim>\<open>{}\<close> the listener returns when the client is gone.
\<close>

datatype resolution = JsEmptyArray | JsEmptyObject | Resolution response

record build_request =
  br_entryFile :: string
  br_platform :: string
  br_resolutionResponse :: resolution

record hmr_bundle =
  isEmpty :: bool
  getModulesNamesAndCode :: "(string \<times> string) list"
  getSourceURLs :: "string list"
  getSourceMappingURLs :: "string list"

type_synonym inverse_map = "(string \<times> string list) list"

text \<open>
  What the packager server and \<^verbatim>\<open>node-haste\<close> answer at one moment. A promise is
  its settled value: \<open>Inl\<close> a rejection, \<open>Inr\<close> the value it resolves to. Two
  fields say when promises settle: \<open>nameResolutionOrder\<close> gives the dependencies of a
  response in the order in which their \<^verbatim>\<open>getName()\<close> promises resolve (a
  rearrangement of the list), and \<open>firstRejection\<close> gives, of the rejections of the
  promises handed to one \<^verbatim>\<open>Promise.all\<close>, the one that comes first in time.
\<close>

record collaborators =
  pk_getDependencies :: "dep_request \<Rightarrow> rejection + response"
  getShallowDependencies :: "string \<Rightarrow> rejection + string list"
  getModuleForPath :: "string \<Rightarrow> module"
  buildBundleForHMR :: "build_request \<Rightarrow> string \<Rightarrow> nat \<Rightarrow> rejection + hmr_bundle option"
  getInverseDependencies :: "response \<Rightarrow> rejection + inverse_map"
  nameResolutionOrder :: "module list \<Rightarrow> module list"
  firstRejection :: "rejection list \<Rightarrow> rejection"

text \<open>
  The requests issued to the collaborators, in the order they are issued.
  \<open>GetShallowDependenciesEach\<close> stands for the requests of the snapshot builder, one
  for each path of its list, issued as the names resolve.
\<close>

datatype call =
    GetDependencies dep_request
  | GetShallowDependencies string
  | GetShallowDependenciesEach "string list"
  | GetInverseDependencies
  | BuildBundleForHMR build_request string nat

subsection \<open>The dependency snapshot: \<^verbatim>\<open>getDependencies(platform, bundleEntry)\<close>\<close>

record snapshot =
  snap_dependenciesCache :: "string list"
  snap_dependenciesModulesCache :: "module jsobj"
  snap_shallowDependencies :: "string list jsobj"
  snap_inverseDependenciesCache :: inverse_map
  snap_resolutionResponse :: response

record dep_entry =
  entry_path :: string
  entry_name :: "string option"
  entry_deps :: "string list"

definition is_leaf :: "module \<Rightarrow> bool" where
  "is_leaf dep = (isAsset dep \<or> isAsset_DEPRECATED dep \<or> isJSON dep)"

definition shallowEntry :: "collaborators \<Rightarrow> module \<Rightarrow> rejection + dep_entry" where
  "shallowEntry pk dep =
     (if is_leaf dep
      then Inr \<lparr>entry_path = mod_path dep, entry_name = None, entry_deps = []\<rparr>
      else (case getShallowDependencies pk (mod_path dep) of
              Inl e \<Rightarrow> Inl e
            | Inr deps \<Rightarrow>
                Inr \<lparr>entry_path = mod_path dep, entry_name = Some (mod_name dep),
                     entry_deps = deps\<rparr>))"

text \<open>
  \<^verbatim>\<open>Promise.all\<close>: the values in the order of the promises when all of them resolve;
  otherwise the rejection that comes first in time.
\<close>

fun rejections :: "('e + 'a) list \<Rightarrow> 'e list" where
  "rejections [] = []"
| "rejections (Inl e # rs) = e # rejections rs"
| "rejections (Inr x # rs) = rejections rs"

fun resolutions :: "('e + 'a) list \<Rightarrow> 'a list" where
  "resolutions [] = []"
| "resolutions (Inl e # rs) = resolutions rs"
| "resolutions (Inr x # rs) = x # resolutions rs"

definition promise_all :: "('e list \<Rightarrow> 'e) \<Rightarrow> ('e + 'a) list \<Rightarrow> 'e + 'a list" where
  "promise_all first_in_time rs =
     (if rejections rs = [] then Inr (resolutions rs) else Inl (first_in_time (rejections rs)))"

text \<open>
  Lines 77-81: the module index \<^verbatim>\<open>dependenciesModulesCache\<close> is written once per
  dependency, under the dependency's name, when the \<^verbatim>\<open>getName()\<close> promise of the
  dependency resolves. \<open>moduleIndex\<close> takes the dependencies in that order. The map
  \<^verbatim>\<open>moduleToFilenameCache\<close> of the source is built and never read; it is left out.
\<close>

definition moduleIndex :: "module list \<Rightarrow> module jsobj" where
  "moduleIndex resolved = foldl (\<lambda>obj dep. obj_set obj (mod_name dep) dep) [] resolved"

definition shallowIndex :: "dep_entry list \<Rightarrow> string list jsobj" where
  "shallowIndex deps = foldl (\<lambda>obj dep. obj_set obj (entry_path dep) (entry_deps dep)) [] deps"

definition getDependencies ::
  "collaborators \<Rightarrow> string \<Rightarrow> string \<Rightarrow> call list \<times> (rejection + snapshot)" where
  "getDependencies pk platform bundleEntry =
     (let rq = \<lparr>rq_platform = platform, rq_dev = True, rq_entryFile = bundleEntry,
                rq_recursive = None\<rparr>
      in case pk_getDependencies pk rq of
           Inl e \<Rightarrow> ([GetDependencies rq], Inl e)
         | Inr response \<Rightarrow>
            (let calls =
                   [GetDependencies rq,
                    GetShallowDependenciesEach
                      (map mod_path (filter (\<lambda>dep. \<not> is_leaf dep) (dependencies response)))]
             in case promise_all (firstRejection pk)
                       (map (shallowEntry pk) (dependencies response)) of
                  Inl e \<Rightarrow> (calls, Inl e)
                | Inr deps \<Rightarrow>
                   (case getInverseDependencies pk response of
                      Inl e \<Rightarrow> (calls @ [GetInverseDependencies], Inl e)
                    | Inr inverseDependenciesCache \<Rightarrow>
                       (calls @ [GetInverseDependencies],
                        Inr \<lparr>snap_dependenciesCache = map mod_path (dependencies response),
                             snap_dependenciesModulesCache =
                               moduleIndex (nameResolutionOrder pk (dependencies response)),
                             snap_shallowDependencies = shallowIndex deps,
                             snap_inverseDependenciesCache = inverseDependenciesCache,
                             snap_resolutionResponse = response\<rparr>))))"

subsection \<open>The session and the messages\<close>

record client =
  c_ws :: nat
  c_platform :: string
  c_bundleEntry :: string
  c_dependenciesCache :: "string list"
  c_dependenciesModulesCache :: "module jsobj"
  c_shallowDependencies :: "string list jsobj"
  c_inverseDependenciesCache :: inverse_map

record error_body =
  body_type :: string
  body_description :: "string option"
  body_filename :: "string option"
  body_lineNumber :: "int option"

record update_body =
  modules :: "(string \<times> string) list"
  inverseDependencies :: inverse_map
  sourceURLs :: "string list"
  sourceMappingURLs :: "string list"

datatype message = UpdateStart | Update update_body | ErrorMsg error_body | UpdateDone

subsection \<open>The catch handler\<close>

definition internalErrorDescription :: string where
  "internalErrorDescription =
     ''react-packager has encountered an internal error, '' @
     ''please check your terminal error output for more details''"

definition errorBody :: "js_error \<Rightarrow> error_body" where
  "errorBody error =
     (if err_type error = Some ''TransformError'' \<or> err_type error = Some ''NotFoundError''
         \<or> err_type error = Some ''UnableToResolveError''
      then \<lparr>body_type = the (err_type error), body_description = err_description error,
            body_filename = err_filename error, body_lineNumber = err_lineNumber error\<rparr>
      else \<lparr>body_type = ''InternalError'', body_description = Some internalErrorDescription,
            body_filename = None, body_lineNumber = None\<rparr>)"

text \<open>
  Lines 237-255. The handler reads \<^verbatim>\<open>error.type\<close> first: with \<^verbatim>\<open>null\<close> or
  \<^verbatim>\<open>undefined\<close> for \<^verbatim>\<open>error\<close> that throws a \<^verbatim>\<open>TypeError\<close> inside the
  handler, so the promise of the handler is rejected and no later callback of the chain
  runs. Otherwise the handler returns the \<^verbatim>\<open>error\<close> message.
\<close>

datatype outcome = HandlerThrew | Settled "message option"

definition catchHandler :: "rejection \<Rightarrow> outcome" where
  "catchHandler error =
     (case error of
        Nullish \<Rightarrow> HandlerThrew
      | Thrown e \<Rightarrow> Settled (Some (ErrorMsg (errorBody e))))"

subsection \<open>The file-change listener\<close>

text \<open>
  The listener is a chain of promise callbacks. Between two callbacks the server waits for
  a collaborator, and while it waits the socket's \<^verbatim>\<open>close\<close> or \<^verbatim>\<open>error\<close>
  handler may run \<^verbatim>\<open>disconnect()\<close>, which sets \<^verbatim>\<open>client = null\<close>. The waits
  of one change cycle are numbered: 0 the \<^verbatim>\<open>stat\<close> promise of the watcher, 1
  \<^verbatim>\<open>getShallowDependencies(filename)\<close>, 2 the re-resolution (either path), 3
  \<^verbatim>\<open>buildBundleForHMR\<close>. \<open>env_closedDuring\<close> names the wait during which the
  connection closes, if it does and the cycle gets there.
\<close>

record cycle_env =
  env_pk :: collaborators
  env_fileRemoved :: bool
  env_closedDuring :: "nat option"
  env_address :: http_address

definition after_await :: "cycle_env \<Rightarrow> nat \<Rightarrow> client option \<Rightarrow> client option" where
  "after_await env k cl = (if env_closedDuring env = Some k then None else cl)"

text \<open>
  Lines 140-141: \<^verbatim>\<open>arrayEquals(deps, client.shallowDependencies[filename])\<close>.
\<close>

definition shallowEquivalent :: "client \<Rightarrow> string \<Rightarrow> string list \<Rightarrow> bool" where
  "shallowEquivalent c filename deps =
     arrayEquals (Some deps) (obj_get (c_shallowDependencies c) filename)"

text \<open>
  Lines 172-187: the list starts with the changed file's module; every key of the new
  module index that the session's index lacks pushes its module; the list is reversed.
  A key of \<^verbatim>\<open>Object.keys\<close> always has a value, so the \<open>None\<close> case is never taken.
\<close>

definition modulesToUpdate ::
  "collaborators \<Rightarrow> string \<Rightarrow> module jsobj \<Rightarrow> module jsobj \<Rightarrow> module list" where
  "modulesToUpdate pk filename oldCache newCache =
     rev (foldl
            (\<lambda>acc key.
               if obj_get oldCache key = None
               then (case obj_get newCache key of None \<Rightarrow> acc | Some m \<Rightarrow> acc @ [m])
               else acc)
            [getModuleForPath pk filename]
            (obj_keys newCache))"

text \<open>Lines 189-192: the caches that a structural change replaces.\<close>

definition invalidateCaches :: "client \<Rightarrow> snapshot \<Rightarrow> client" where
  "invalidateCaches c snap =
     c\<lparr>c_dependenciesCache := snap_dependenciesCache snap,
       c_dependenciesModulesCache := snap_dependenciesModulesCache snap,
       c_shallowDependencies := snap_shallowDependencies snap\<rparr>"

text \<open>The options of the re-resolution on the shallow-equivalent path (lines 146-151).\<close>

definition shallowRequest :: "client \<Rightarrow> string \<Rightarrow> dep_request" where
  "shallowRequest c filename =
     \<lparr>rq_platform = c_platform c, rq_dev = True, rq_entryFile = filename,
      rq_recursive = Some True\<rparr>"

text \<open>
  Lines 132-197. The result is the requests issued, the client after the waits, and the
  value or rejection handed to the next callback.
\<close>

definition resolveChange ::
  "cycle_env \<Rightarrow> string \<Rightarrow> client option
     \<Rightarrow> call list \<times> client option \<times> (rejection + resolution)" where
  "resolveChange env filename cl0 =
     (let cl1 = after_await env 1 cl0
      in case getShallowDependencies (env_pk env) filename of
           Inl e \<Rightarrow> ([GetShallowDependencies filename], cl1, Inl e)
         | Inr deps \<Rightarrow>
            (case cl1 of
               None \<Rightarrow> ([GetShallowDependencies filename], None, Inr JsEmptyArray)
             | Some c \<Rightarrow>
                if shallowEquivalent c filename deps
                then
                  (let rq = shallowRequest c filename;
                       calls = [GetShallowDependencies filename, GetDependencies rq];
                       cl2 = after_await env 2 cl1
                   in case pk_getDependencies (env_pk env) rq of
                        Inl e \<Rightarrow> (calls, cl2, Inl e)
                      | Inr response \<Rightarrow>
                          (calls, cl2,
                           Inr (Resolution
                                  (copy response [getModuleForPath (env_pk env) filename]))))
                else
                  (case getDependencies (env_pk env) (c_platform c) (c_bundleEntry c) of
                     (calls2, r) \<Rightarrow>
                       (let calls = GetShallowDependencies filename # calls2;
                            cl2 = after_await env 2 cl1
                        in case r of
                             Inl e \<Rightarrow> (calls, cl2, Inl e)
                           | Inr snap \<Rightarrow>
                              (case cl2 of
                                 None \<Rightarrow> (calls, None, Inr JsEmptyObject)
                               | Some c' \<Rightarrow>
                                  (calls, Some (invalidateCaches c' snap),
                                   Inr (Resolution
                                          (copy (snap_resolutionResponse snap)
                                             (modulesToUpdate (env_pk env) filename
                                                (c_dependenciesModulesCache c')
                                                (snap_dependenciesModulesCache snap))))))))))"

text \<open>Lines 198-222: the guard on the tracked files, the host and the bundle request.\<close>

definition buildUpdate ::
  "cycle_env \<Rightarrow> string \<Rightarrow> client option \<Rightarrow> resolution
     \<Rightarrow> call list \<times> client option \<times> (rejection + hmr_bundle option)" where
  "buildUpdate env filename cl resolutionResponse =
     (case cl of
        None \<Rightarrow> ([], None, Inr None)
      | Some c \<Rightarrow>
         if obj_get (c_shallowDependencies c) filename = None
         then ([], cl, Inr None)
         else
           (let rq = \<lparr>br_entryFile = c_bundleEntry c, br_platform = c_platform c,
                      br_resolutionResponse = resolutionResponse\<rparr>;
                calls = [BuildBundleForHMR rq (packagerHost (env_address env))
                           (port (env_address env))]
            in (calls, after_await env 3 cl,
                buildBundleForHMR (env_pk env) rq (packagerHost (env_address env))
                  (port (env_address env)))))"

text \<open>
  Lines 223-236. \<open>inverseDependenciesCache\<close> is the variable of the connection
  callback that the listener closes over, not a field of \<^verbatim>\<open>client\<close>.
\<close>

definition makeUpdate ::
  "inverse_map \<Rightarrow> client option \<Rightarrow> hmr_bundle option \<Rightarrow> message option" where
  "makeUpdate inverseDependenciesCache cl b =
     (case cl of
        None \<Rightarrow> None
      | Some c \<Rightarrow>
         (case b of
            None \<Rightarrow> None
          | Some bundle \<Rightarrow>
             if isEmpty bundle then None
             else Some (Update \<lparr>modules = getModulesNamesAndCode bundle,
                                 inverseDependencies = inverseDependenciesCache,
                                 sourceURLs = getSourceURLs bundle,
                                 sourceMappingURLs = getSourceMappingURLs bundle\<rparr>)))"

text \<open>
  Lines 132-255: the chain up to and including the catch handler. The result is the
  requests issued, the client after the waits, and what the chain hands on: the message
  to send, if any, or the exception of the catch handler.
\<close>

definition changePipeline ::
  "inverse_map \<Rightarrow> cycle_env \<Rightarrow> string \<Rightarrow> client option
     \<Rightarrow> call list \<times> client option \<times> outcome" where
  "changePipeline inverseDependenciesCache env filename cl0 =
     (case resolveChange env filename cl0 of
        (calls1, cl1, Inl e) \<Rightarrow> (calls1, cl1, catchHandler e)
      | (calls1, cl1, Inr resolutionResponse) \<Rightarrow>
         (case buildUpdate env filename cl1 resolutionResponse of
            (calls2, cl2, Inl e) \<Rightarrow> (calls1 @ calls2, cl2, catchHandler e)
          | (calls2, cl2, Inr b) \<Rightarrow>
              (calls1 @ calls2, cl2, Settled (makeUpdate inverseDependenciesCache cl2 b))))"

text \<open>Lines 256-263: \<^verbatim>\<open>if (!client || !update) return; client.ws.send(update)\<close>.\<close>

definition sendUpdate :: "client option \<Rightarrow> message option \<Rightarrow> message list" where
  "sendUpdate cl update =
     (case cl of
        None \<Rightarrow> []
      | Some c \<Rightarrow> (case update of None \<Rightarrow> [] | Some u \<Rightarrow> [u]))"

text \<open>
  The whole listener (lines 124-269). When the catch handler throws, the callbacks that
  send the update and \<^verbatim>\<open>update-done\<close> do not run and the rejection is handled by
  nothing (\<open>res_unhandled\<close>). The last callback reads \<^verbatim>\<open>client.ws\<close> with no
  guard: when the client is gone it throws a \<^verbatim>\<open>TypeError\<close> that nothing handles
  either and sends nothing.
\<close>

record cycle_result =
  res_sent :: "message list"
  res_calls :: "call list"
  res_client :: "client option"
  res_unhandled :: bool

definition fileChangeListener ::
  "inverse_map \<Rightarrow> cycle_env \<Rightarrow> string \<Rightarrow> client option \<Rightarrow> cycle_result" where
  "fileChangeListener inverseDependenciesCache env filename cl =
     (case cl of
        None \<Rightarrow> \<lparr>res_sent = [], res_calls = [], res_client = None, res_unhandled = False\<rparr>
      | Some c \<Rightarrow>
         (case (if env_fileRemoved env
                then ([], after_await env 0 cl, Settled None)
                else changePipeline inverseDependenciesCache env filename
                       (after_await env 0 cl)) of
            (calls, cl', HandlerThrew) \<Rightarrow>
              \<lparr>res_sent = [UpdateStart], res_calls = calls, res_client = cl',
               res_unhandled = True\<rparr>
          | (calls, cl', Settled update) \<Rightarrow>
              (case cl' of
                 None \<Rightarrow>
                   \<lparr>res_sent = [UpdateStart], res_calls = calls, res_client = None,
                    res_unhandled = True\<rparr>
               | Some c' \<Rightarrow>
                   \<lparr>res_sent = UpdateStart # sendUpdate cl' update @ [UpdateDone],
                    res_calls = calls, res_client = cl', res_unhandled = False\<rparr>)))"

subsection \<open>The server's state\<close>

text \<open>
  \<open>hmr_client\<close> is the variable \<^verbatim>\<open>client\<close>; \<open>hmr_listener\<close> is the listener
  registered with \<^verbatim>\<open>setHMRFileChangeListener\<close>, given by the
  \<^verbatim>\<open>inverseDependenciesCache\<close> it closed over (\<open>None\<close> for \<^verbatim>\<open>null\<close>).
\<close>

record hmr_state =
  hmr_client :: "client option"
  hmr_listener :: "inverse_map option"

definition disconnect :: hmr_state where
  "disconnect = \<lparr>hmr_client = None, hmr_listener = None\<rparr>"

definition onConnection ::
  "collaborators \<Rightarrow> nat \<Rightarrow> string \<Rightarrow> string \<Rightarrow> hmr_state \<Rightarrow> hmr_state" where
  "onConnection pk ws platform bundleEntry st =
     (case snd (getDependencies pk platform bundleEntry) of
        Inl e \<Rightarrow> st
      | Inr snap \<Rightarrow>
          \<lparr>hmr_client =
             Some \<lparr>c_ws = ws, c_platform = platform, c_bundleEntry = bundleEntry,
                   c_dependenciesCache = snap_dependenciesCache snap,
                   c_dependenciesModulesCache = snap_dependenciesModulesCache snap,
                   c_shallowDependencies = snap_shallowDependencies snap,
                   c_inverseDependenciesCache = snap_inverseDependenciesCache snap\<rparr>,
           hmr_listener = Some (snap_inverseDependenciesCache snap)\<rparr>)"

record change_event =
  ev_filename :: string
  ev_env :: cycle_env

text \<open>
  A change runs the registered listener. A connection that closes during the cycle has
  run \<^verbatim>\<open>disconnect()\<close>, which also unregisters the listener.
\<close>

definition onFileChange :: "hmr_state \<Rightarrow> change_event \<Rightarrow> hmr_state \<times> message list" where
  "onFileChange st ev =
     (case hmr_listener st of
        None \<Rightarrow> (st, [])
      | Some inverseDependenciesCache \<Rightarrow>
         (let r = fileChangeListener inverseDependenciesCache (ev_env ev) (ev_filename ev)
                    (hmr_client st)
          in (if hmr_client st \<noteq> None \<and> res_client r = None then disconnect
              else st\<lparr>hmr_client := res_client r\<rparr>,
              res_sent r)))"

fun runChanges :: "hmr_state \<Rightarrow> change_event list \<Rightarrow> hmr_state \<times> message list" where
  "runChanges st [] = (st, [])"
| "runChanges st (ev # evs) =
     (case onFileChange st ev of
        (st', sent) \<Rightarrow> (case runChanges st' evs of (st'', sent') \<Rightarrow> (st'', sent @ sent')))"

subsection \<open>Notions of the specification\<close>

text \<open>The ordered modules of the update batch: the dependency list handed to the bundler.\<close>

definition updateBatch :: "cycle_env \<Rightarrow> string \<Rightarrow> client \<Rightarrow> module list option" where
  "updateBatch env filename c =
     (case snd (snd (resolveChange env filename (Some c))) of
        Inr (Resolution r) \<Rightarrow> Some (dependencies r)
      | Inr JsEmptyArray \<Rightarrow> None
      | Inr JsEmptyObject \<Rightarrow> None
      | Inl e \<Rightarrow> None)"

text \<open>
  The specification's order, in its words: \<^verbatim>\<open>reverse([filename] ++ newly_discovered_in_BFS_order)\<close>,
  the newly discovered modules being those the resolver yields whose name the session's
  module index lacks, in the order the resolver yields them.
\<close>

definition spec_orderedModules :: "module \<Rightarrow> module jsobj \<Rightarrow> module list \<Rightarrow> module list" where
  "spec_orderedModules changed oldIndex yielded =
     rev (changed # filter (\<lambda>dep. obj_get oldIndex (mod_name dep) = None) yielded)"

text \<open>
  The specification's equivalence test, in its words: equal length and pairwise equal
  elements; any difference, the absence of the cached entry included, is structural.
\<close>

definition spec_shallowEquivalent :: "string list \<Rightarrow> string list option \<Rightarrow> bool" where
  "spec_shallowEquivalent fresh cached =
     (case cached of
        None \<Rightarrow> False
      | Some old \<Rightarrow> length fresh = length old \<and> list_all2 (=) fresh old)"

fun is_update_or_error :: "message \<Rightarrow> bool" where
  "is_update_or_error (Update u) = True"
| "is_update_or_error (ErrorMsg e) = True"
| "is_update_or_error UpdateStart = False"
| "is_update_or_error UpdateDone = False"

subsection \<open>A small project\<close>

text \<open>
  The example of the specification: the entry \<^verbatim>\<open>/A.js\<close> requires \<^verbatim>\<open>/B.js\<close>;
  an edit makes it require \<^verbatim>\<open>/C.js\<close> as well.
\<close>

definition source_module :: "string \<Rightarrow> string \<Rightarrow> module" where
  "source_module p n =
     \<lparr>mod_path = p, mod_name = n, isAsset = False, isAsset_DEPRECATED = False, isJSON = False\<rparr>"

definition mod_A :: module where "mod_A = source_module ''/A.js'' ''A''"
definition mod_B :: module where "mod_B = source_module ''/B.js'' ''B''"
definition mod_C :: module where "mod_C = source_module ''/C.js'' ''C''"

definition example_bundle :: "build_request \<Rightarrow> hmr_bundle option" where
  "example_bundle rq =
     (case br_resolutionResponse rq of
        Resolution r \<Rightarrow>
          Some \<lparr>isEmpty = (dependencies r = []),
                getModulesNamesAndCode = map (\<lambda>m. (mod_name m, ''code'')) (dependencies r),
                getSourceURLs = map mod_path (dependencies r),
                getSourceMappingURLs = []\<rparr>
      | JsEmptyArray \<Rightarrow> None
      | JsEmptyObject \<Rightarrow> None)"

definition example_pk ::
  "module list \<Rightarrow> (string \<Rightarrow> rejection + string list) \<Rightarrow> inverse_map \<Rightarrow> collaborators" where
  "example_pk graph shallow imap =
     \<lparr>pk_getDependencies = (\<lambda>rq. Inr \<lparr>dependencies = graph, mainModuleId = rq_entryFile rq\<rparr>),
      getShallowDependencies = shallow,
      getModuleForPath =
        (\<lambda>p. if p = ''/B.js'' then mod_B else if p = ''/C.js'' then mod_C else mod_A),
      buildBundleForHMR = (\<lambda>rq host port. Inr (example_bundle rq)),
      getInverseDependencies = (\<lambda>r. Inr imap),
      nameResolutionOrder = (\<lambda>deps. deps),
      firstRejection = (\<lambda>rs. case rs of [] \<Rightarrow> Nullish | r # later \<Rightarrow> r)\<rparr>"

definition shallow_before :: "string \<Rightarrow> rejection + string list" where
  "shallow_before p = Inr (if p = ''/A.js'' then [''./B''] else [])"

definition shallow_after :: "string \<Rightarrow> rejection + string list" where
  "shallow_after p = Inr (if p = ''/A.js'' then [''./B'', ''./C''] else [])"

definition inv_before :: inverse_map where
  "inv_before = [(''/B.js'', [''/A.js''])]"

definition inv_after :: inverse_map where
  "inv_after = [(''/B.js'', [''/A.js'']), (''/C.js'', [''/A.js''])]"

definition pk_before :: collaborators where
  "pk_before = example_pk [mod_A, mod_B] shallow_before inv_before"

definition pk_after :: collaborators where
  "pk_after = example_pk [mod_A, mod_B, mod_C] shallow_after inv_after"

definition example_env :: "collaborators \<Rightarrow> nat option \<Rightarrow> cycle_env" where
  "example_env pk closed =
     \<lparr>env_pk = pk, env_fileRemoved = False, env_closedDuring = closed,
      env_address = \<lparr>address = Some ''::'', port = 8081\<rparr>\<rparr>"

text \<open>The session of a client that connected before the edit.\<close>

definition example_client :: client where
  "example_client =
     \<lparr>c_ws = 7, c_platform = ''ios'', c_bundleEntry = ''/A.js'',
      c_dependenciesCache = [''/A.js'', ''/B.js''],
      c_dependenciesModulesCache = [(''A'', mod_A), (''B'', mod_B)],
      c_shallowDependencies = [(''/A.js'', [''./B'']), (''/B.js'', [])],
      c_inverseDependenciesCache = inv_before\<rparr>"

text \<open>
  Three other edits of \<^verbatim>\<open>/A.js\<close>. After the first the resolver yields two new
  modules, at different paths, whose names are the same. After the second it yields two
  new modules \<^verbatim>\<open>/C.js\<close> and \<^verbatim>\<open>/D.js\<close>, and the name of the second resolves
  before the name of the first. After the third it yields two new modules named
  \<^verbatim>\<open>2\<close> and \<^verbatim>\<open>1\<close>, in this order.
\<close>

definition shallow_requires :: "string list \<Rightarrow> string \<Rightarrow> rejection + string list" where
  "shallow_requires requires p = Inr (if p = ''/A.js'' then requires else [])"

definition pk_duplicate :: collaborators where
  "pk_duplicate =
     example_pk [mod_A, mod_B, source_module ''/x/c.js'' ''c/index.js'',
                 source_module ''/y/c.js'' ''c/index.js'']
       (shallow_requires [''./B'', ''./x/c'', ''./y/c'']) inv_after"

definition mod_D :: module where "mod_D = source_module ''/D.js'' ''D''"

definition pk_out_of_order :: collaborators where
  "pk_out_of_order =
     (example_pk [mod_A, mod_B, mod_C, mod_D] (shallow_requires [''./B'', ''./C'', ''./D''])
        inv_after)
       \<lparr>nameResolutionOrder := (\<lambda>deps. [mod_A, mod_B, mod_D, mod_C])\<rparr>"

definition pk_numeric :: collaborators where
  "pk_numeric =
     example_pk [mod_A, mod_B, source_module ''/two.js'' ''2'', source_module ''/one.js'' ''1'']
       (shallow_requires [''./B'', ''./two'', ''./one'']) inv_after"



text \<open>A transform that fails, and a bundler that fails with an error of no known type.\<close>

definition transform_error :: js_error where
  "transform_error =
     \<lparr>err_type = Some ''TransformError'', err_description = Some ''Unexpected token'',
      err_filename = Some ''/A.js'', err_lineNumber = Some 3\<rparr>"

definition pk_failing :: collaborators where
  "pk_failing = example_pk [mod_A, mod_B] (\<lambda>p. Inl (Thrown transform_error)) inv_before"

definition internal_error :: js_error where
  "internal_error =
     \<lparr>err_type = None, err_description = Some ''Cannot read property of undefined'',
      err_filename = None, err_lineNumber = None\<rparr>"

definition pk_crashing :: collaborators where
  "pk_crashing =
     pk_before\<lparr>buildBundleForHMR := (\<lambda>rq host port. Inl (Thrown internal_error))\<rparr>"

text \<open>A collaborator whose promise is rejected with \<^verbatim>\<open>undefined\<close>.\<close>

definition pk_rejecting_undefined :: collaborators where
  "pk_rejecting_undefined = pk_before\<lparr>getShallowDependencies := (\<lambda>p. Inl Nullish)\<rparr>"


section \<open>The debugger proxy (\<^verbatim>\<open>webSocketProxy.js\<close>)\<close>

text \<open>
  A socket is known by a number; every connection gets a new one (\<open>nextSocket\<close>), as
  every \<^verbatim>\<open>connection\<close> event of the source brings a new object. The two variables
  \<^verbatim>\<open>debuggerSocket\<close> and \<^verbatim>\<open>clientSocket\<close> are shared by all the handlers: a
  handler is one of four closures over them, and each socket carries the handlers that
  were assigned to its \<^verbatim>\<open>onerror\<close>, \<^verbatim>\<open>onclose\<close> and \<^verbatim>\<open>onmessage\<close>
  properties.
\<close>

datatype handler = DebuggerClosed | DebuggerMessage | ClientClosed | ClientMessage

record socket_handlers =
  onerror :: "handler option"
  onclose :: "handler option"
  onmessage :: "handler option"

record broker =
  debuggerSocket :: "nat option"
  clientSocket :: "nat option"
  handlers :: "nat \<Rightarrow> socket_handlers"
  nextSocket :: nat

text \<open>What the broker does to a socket: \<^verbatim>\<open>close(code, reason)\<close> and \<^verbatim>\<open>send(message)\<close>.\<close>

datatype effect = Close nat nat string | Send nat string

datatype event =
    Connection string
  | SocketClose nat
  | SocketError nat
  | SocketMessage nat string

definition no_handlers :: socket_handlers where
  "no_handlers = \<lparr>onerror = None, onclose = None, onmessage = None\<rparr>"

definition debugger_handlers :: socket_handlers where
  "debugger_handlers =
     \<lparr>onerror = Some DebuggerClosed, onclose = Some DebuggerClosed,
      onmessage = Some DebuggerMessage\<rparr>"

definition client_handlers :: socket_handlers where
  "client_handlers =
     \<lparr>onerror = Some ClientClosed, onclose = Some ClientClosed,
      onmessage = Some ClientMessage\<rparr>"

definition initial :: broker where
  "initial =
     \<lparr>debuggerSocket = None, clientSocket = None, handlers = (\<lambda>s. no_handlers),
      nextSocket = 0\<rparr>"

text \<open>
  \<^verbatim>\<open>send(dest, message)\<close>: nothing for a missing destination; an exception of
  \<^verbatim>\<open>dest.send\<close> is caught and logged.
\<close>

definition send :: "nat option \<Rightarrow> string \<Rightarrow> effect list" where
  "send dest message = (case dest of None \<Rightarrow> [] | Some d \<Rightarrow> [Send d message])"

text \<open>\<^verbatim>\<open>JSON.stringify({ method: '$disconnected' })\<close>\<close>

definition disconnectedMessage :: string where
  "disconnectedMessage =
     [CHR ''{'', CHR 0x22] @ ''method'' @ [CHR 0x22, CHR '':'', CHR 0x22] @ ''$disconnected''
     @ [CHR 0x22, CHR ''}'']"

text \<open>\<^verbatim>\<open>url.indexOf(s)\<close>: the first position of \<open>s\<close> in \<open>url\<close>, \<open>None\<close> for \<open>-1\<close>.\<close>

fun indexOf :: "string \<Rightarrow> string \<Rightarrow> nat option" where
  "indexOf [] s = (if s = [] then Some 0 else None)"
| "indexOf (c # cs) s =
     (if prefix s (c # cs) then Some 0 else map_option Suc (indexOf cs s))"

fun runHandler :: "handler \<Rightarrow> string \<Rightarrow> broker \<Rightarrow> broker \<times> effect list" where
  "runHandler DebuggerClosed data b =
     (b\<lparr>debuggerSocket := None\<rparr>,
      (case clientSocket b of
         None \<Rightarrow> []
       | Some c \<Rightarrow> [Close c 1011 ''Debugger was disconnected'']))"
| "runHandler DebuggerMessage data b = (b, send (clientSocket b) data)"
| "runHandler ClientClosed data b =
     (b\<lparr>clientSocket := None\<rparr>, send (debuggerSocket b) disconnectedMessage)"
| "runHandler ClientMessage data b = (b, send (debuggerSocket b) data)"

definition connection :: "string \<Rightarrow> broker \<Rightarrow> broker \<times> effect list" where
  "connection url b =
     (let ws = nextSocket b; b0 = b\<lparr>nextSocket := Suc ws\<rparr>
      in if indexOf url ''role=debugger'' \<noteq> None then
           (case debuggerSocket b of
              Some d \<Rightarrow> (b0, [Close ws 1011 ''Another debugger is already connected''])
            | None \<Rightarrow>
                (b0\<lparr>debuggerSocket := Some ws,
                    handlers := (handlers b)(ws := debugger_handlers)\<rparr>, []))
         else if indexOf url ''role=client'' \<noteq> None then
           (case clientSocket b of
              Some c \<Rightarrow>
                (b0\<lparr>clientSocket := Some ws,
                    handlers := (handlers b)(c := no_handlers, ws := client_handlers)\<rparr>,
                 [Close c 1011 ''Another client connected''])
            | None \<Rightarrow>
                (b0\<lparr>clientSocket := Some ws,
                    handlers := (handlers b)(ws := client_handlers)\<rparr>, []))
         else (b0, [Close ws 1011 ''Missing role param'']))"

text \<open>An event of a socket runs the handler the socket carries for it, if any.\<close>

definition dispatch :: "handler option \<Rightarrow> string \<Rightarrow> broker \<Rightarrow> broker \<times> effect list" where
  "dispatch h data b = (case h of None \<Rightarrow> (b, []) | Some f \<Rightarrow> runHandler f data b)"

fun step :: "broker \<Rightarrow> event \<Rightarrow> broker \<times> effect list" where
  "step b (Connection url) = connection url b"
| "step b (SocketClose s) = dispatch (onclose (handlers b s)) [] b"
| "step b (SocketError s) = dispatch (onerror (handlers b s)) [] b"
| "step b (SocketMessage s data) = dispatch (onmessage (handlers b s)) data b"

fun run :: "broker \<Rightarrow> event list \<Rightarrow> broker \<times> effect list" where
  "run b [] = (b, [])"
| "run b (ev # evs) =
     (case step b ev of
        (b', effs) \<Rightarrow> (case run b' evs of (b'', effs') \<Rightarrow> (b'', effs @ effs')))"

definition isChromeConnected :: "broker \<Rightarrow> bool" where
  "isChromeConnected b = (debuggerSocket b \<noteq> None)"

text \<open>The effects that are messages.\<close>

fun is_send :: "effect \<Rightarrow> bool" where
  "is_send (Send s m) = True"
| "is_send (Close s code reason) = False"

text \<open>
  The socket an effect goes to. \<^verbatim>\<open>close(code, reason)\<close> sends the peer a close
  frame that carries the code and the reason. "Nothing is sent to a socket", in the
  specification's words, is read as: no effect goes to it.
\<close>

fun effect_socket :: "effect \<Rightarrow> nat" where
  "effect_socket (Send s m) = s"
| "effect_socket (Close s code reason) = s"

definition spec_nothing_sent_to :: "nat \<Rightarrow> effect list \<Rightarrow> bool" where
  "spec_nothing_sent_to s effs = (filter (\<lambda>e. effect_socket e = s) effs = [])"

text \<open>
  What holds of the broker after any sequence of events: the socket in a slot is one
  that has connected and carries the handlers of the slot's role.
\<close>

definition wf :: "broker \<Rightarrow> bool" where
  "wf b =
     ((\<forall>d. debuggerSocket b = Some d \<longrightarrow> d < nextSocket b \<and> handlers b d = debugger_handlers)
      \<and> (\<forall>c. clientSocket b = Some c \<longrightarrow> c < nextSocket b \<and> handlers b c = client_handlers))"

section \<open>Host sanitisation\<close>

lemma packagerHost_cases:
  "packagerHost h =
     (case address h of
        None \<Rightarrow> ''localhost''
      | Some s \<Rightarrow> if s = '''' \<or> s = ''::'' then ''localhost'' else s)"
  by (auto simp: packagerHost_def truthy_string_def split: option.splits)

text \<open>
  Claim C7, as the specification states it, fails: a server listening on the IPv4
  wildcard address \<^verbatim>\<open>0.0.0.0\<close> hands that address to the bundler, not
  \<^verbatim>\<open>localhost\<close>.
\<close>

theorem C7_ipv4_wildcard_counterexample:
  "spec_wildcard_or_empty (Some ''0.0.0.0'')
   \<and> packagerHost \<lparr>address = Some ''0.0.0.0'', port = 8081\<rparr> \<noteq> ''localhost''"
  by (simp add: spec_wildcard_or_empty_def packagerHost_cases)

text \<open>
  Claim C7, amended: the host supplied to the bundler is \<^verbatim>\<open>localhost\<close> when the
  listening address is missing, empty or the IPv6 wildcard \<^verbatim>\<open>::\<close>; every other
  listening address, the IPv4 wildcard \<^verbatim>\<open>0.0.0.0\<close> included, is supplied as it
  is.
\<close>

theorem C7_packagerHost:
  "packagerHost h =
     (if address h = None \<or> address h = Some '''' \<or> address h = Some ''::''
      then ''localhost'' else the (address h))"
  by (auto simp: packagerHost_cases split: option.splits)

section \<open>The debugger proxy: occupancy and notifications\<close>

lemma wf_initial: "wf initial"
  by (simp add: wf_def initial_def)

lemma handlers_distinct [simp]:
  "client_handlers \<noteq> debugger_handlers" "debugger_handlers \<noteq> client_handlers"
  "client_handlers \<noteq> no_handlers" "debugger_handlers \<noteq> no_handlers"
  by (simp_all add: client_handlers_def debugger_handlers_def no_handlers_def)

lemma fst_run_Cons: "fst (run b (ev # evs)) = fst (run (fst (step b ev)) evs)"
  by (simp add: case_prod_beta)

lemma wf_runHandler: "wf b \<Longrightarrow> wf (fst (runHandler h data b))"
  by (cases h) (auto simp: wf_def)

lemma wf_connection: "wf b \<Longrightarrow> wf (fst (connection url b))"
  by (auto simp: wf_def connection_def Let_def split: option.splits)

lemma wf_step: "wf b \<Longrightarrow> wf (fst (step b ev))"
  by (cases ev) (auto simp: wf_connection dispatch_def wf_runHandler split: option.splits)

lemma wf_run: "wf b \<Longrightarrow> wf (fst (run b evs))"
proof (induction evs arbitrary: b)
  case Nil
  then show ?case by simp
next
  case (Cons ev evs)
  from Cons.prems have "wf (fst (step b ev))" by (rule wf_step)
  then have "wf (fst (run (fst (step b ev)) evs))" by (rule Cons.IH)
  then show ?case by (simp only: fst_run_Cons)
qed

lemma wf_reachable: "wf (fst (run initial evs))"
  by (rule wf_run [OF wf_initial])

lemma evict_step:
  assumes "wf b" and "clientSocket b = Some c"
    and "indexOf url ''role=debugger'' = None" and "indexOf url ''role=client'' \<noteq> None"
  shows "step b (Connection url) =
           (b\<lparr>nextSocket := Suc (nextSocket b), clientSocket := Some (nextSocket b),
              handlers := (handlers b)(c := no_handlers, nextSocket b := client_handlers)\<rparr>,
            [Close c 1011 ''Another client connected''])"
    and "c < nextSocket b"
  using assms by (auto simp: wf_def connection_def Let_def)

text \<open>
  The part of claim C8 that holds. After any sequence of events: a connection with
  \<^verbatim>\<open>role=debugger\<close> that arrives while the debugger slot is occupied is closed at
  once with code 1011 and the reason "Another debugger is already connected", and the
  slots and the handlers stay as they were; a connection with \<^verbatim>\<open>role=client\<close> that
  arrives while the client slot is occupied closes the occupant with code 1011 and the
  reason "Another client connected", takes the slot and carries the client handlers, the
  former occupant carries none, and the debugger slot is untouched.
\<close>

lemma occupied_slot_admits_no_second:
  assumes "b = fst (run initial evs)"
  shows "(indexOf url ''role=debugger'' \<noteq> None \<and> debuggerSocket b = Some d \<longrightarrow>
            step b (Connection url) =
              (b\<lparr>nextSocket := Suc (nextSocket b)\<rparr>,
               [Close (nextSocket b) 1011 ''Another debugger is already connected'']))
       \<and> (indexOf url ''role=debugger'' = None \<and> indexOf url ''role=client'' \<noteq> None
            \<and> clientSocket b = Some c \<longrightarrow>
              snd (step b (Connection url)) = [Close c 1011 ''Another client connected'']
              \<and> clientSocket (fst (step b (Connection url))) = Some (nextSocket b)
              \<and> nextSocket b \<noteq> c
              \<and> handlers (fst (step b (Connection url))) (nextSocket b) = client_handlers
              \<and> handlers (fst (step b (Connection url))) c = no_handlers
              \<and> debuggerSocket (fst (step b (Connection url))) = debuggerSocket b)"
proof -
  have "wf b" using assms by (simp add: wf_reachable)
  then show ?thesis
    by (auto simp: wf_def connection_def Let_def)
qed

text \<open>
  Claim C8 says that a debugger that arrives while a debugger is connected is rejected,
  and that a client that arrives while a client is connected closes the prior client. A
  socket that left on its own keeps its handlers, and they clear the slot whichever
  socket holds it. First run: debugger 0 connects and its \<^verbatim>\<open>error\<close> event fires;
  debugger 1 connects; the \<^verbatim>\<open>close\<close> event of socket 0 fires and empties the slot
  that holds socket 1; debugger 2 connects and is accepted, not closed; client 3 connects;
  a message of socket 1 and a message of socket 2 are both forwarded to the client: two
  debuggers are connected. Second run, the same with clients: client 2 is accepted and
  client 1, still connected, is not closed.
\<close>

theorem C8_stale_handler_admits_second:
  "run initial
     [Connection ''/debugger-proxy?role=debugger'', SocketError 0,
      Connection ''/debugger-proxy?role=debugger'', SocketClose 0]
     = (\<lparr>debuggerSocket = None, clientSocket = None,
         handlers = (\<lambda>s. no_handlers)(0 := debugger_handlers, 1 := debugger_handlers),
         nextSocket = 2\<rparr>, [])
   \<and> snd (run initial
     [Connection ''/debugger-proxy?role=debugger'', SocketError 0,
      Connection ''/debugger-proxy?role=debugger'', SocketClose 0,
      Connection ''/debugger-proxy?role=debugger'', Connection ''/debugger-proxy?role=client'',
      SocketMessage 1 ''from 1'', SocketMessage 2 ''from 2''])
     = [Send 3 ''from 1'', Send 3 ''from 2'']
   \<and> snd (run initial
     [Connection ''/debugger-proxy?role=client'', SocketError 0,
      Connection ''/debugger-proxy?role=client'', SocketClose 0,
      Connection ''/debugger-proxy?role=client'']) = []
   \<and> handlers (fst (run initial
     [Connection ''/debugger-proxy?role=client'', SocketError 0,
      Connection ''/debugger-proxy?role=client'', SocketClose 0,
      Connection ''/debugger-proxy?role=client''])) 1 = client_handlers"
  by (simp add: connection_def initial_def Let_def dispatch_def send_def
      client_handlers_def debugger_handlers_def no_handlers_def fun_upd_twist)

text \<open>
  Claim C9, amended. After any sequence of events: when the \<^verbatim>\<open>close\<close> or the
  \<^verbatim>\<open>error\<close> event of the socket in the client slot fires, the slot is cleared and
  the debugger in the debugger slot, if any, is sent the text
  \<^verbatim>\<open>{"method":"$disconnected"}\<close> (written out below, \<open>CHR 0x22\<close> being the double
  quote); when the event fires for the socket in the debugger slot, that slot is cleared,
  no message is sent with \<^verbatim>\<open>send\<close>, and the client in the client slot, if any, is
  closed with code 1011 and the reason "Debugger was disconnected".
\<close>

theorem C9_disconnect_notification:
  assumes "b = fst (run initial evs)"
  shows "(clientSocket b = Some c \<longrightarrow>
            step b (SocketClose c) =
              (b\<lparr>clientSocket := None\<rparr>,
               (case debuggerSocket b of
                  None \<Rightarrow> []
                | Some d \<Rightarrow>
                    [Send d (CHR ''{'' # CHR 0x22 # ''method'' @ CHR 0x22 # CHR '':'' # CHR 0x22
                               # ''$disconnected'' @ [CHR 0x22, CHR ''}''])]))
            \<and> step b (SocketError c) = step b (SocketClose c))
       \<and> (debuggerSocket b = Some d \<longrightarrow>
            step b (SocketClose d) =
              (b\<lparr>debuggerSocket := None\<rparr>,
               (case clientSocket b of
                  None \<Rightarrow> []
                | Some c' \<Rightarrow> [Close c' 1011 ''Debugger was disconnected'']))
            \<and> step b (SocketError d) = step b (SocketClose d))"
proof -
  have "wf b" using assms by (simp add: wf_reachable)
  then show ?thesis
    by (auto simp: wf_def dispatch_def send_def client_handlers_def debugger_handlers_def
        disconnectedMessage_def split: option.splits)
qed

theorem C9_witness:
  "snd (step (fst (run initial [Connection ''/debugger-proxy?role=debugger'',
                                 Connection ''/debugger-proxy?role=client'']))
          (SocketClose 1))
     = [Send 0 (CHR ''{'' # CHR 0x22 # ''method'' @ CHR 0x22 # CHR '':'' # CHR 0x22
                 # ''$disconnected'' @ [CHR 0x22, CHR ''}''])]
   \<and> snd (step (fst (run initial [Connection ''/debugger-proxy?role=debugger'',
                                 Connection ''/debugger-proxy?role=client'']))
          (SocketError 0)) = [Close 1 1011 ''Debugger was disconnected'']"
proof -
  let ?D = "''/debugger-proxy?role=debugger''"
  let ?C = "''/debugger-proxy?role=client''"
  let ?b = "fst (run initial [Connection ?D, Connection ?C])"
  have s: "clientSocket ?b = Some 1 \<and> debuggerSocket ?b = Some 0"
    by (simp add: connection_def initial_def Let_def)
  from C9_disconnect_notification [OF refl, of "[Connection ?D, Connection ?C]" 1 0] s
  show ?thesis by simp
qed

text \<open>
  Claim C9, as the specification states it, fails: when the debugger disconnects while a
  client is connected, the broker closes the client's socket with code 1011 and the
  reason "Debugger was disconnected". Something is sent to the client, and it tells the
  client that the debugger has left.
\<close>

theorem C9_client_is_closed_counterexample:
  "snd (step (fst (run initial [Connection ''/debugger-proxy?role=debugger'',
                                 Connection ''/debugger-proxy?role=client'']))
          (SocketClose 0)) = [Close 1 1011 ''Debugger was disconnected'']
   \<and> \<not> spec_nothing_sent_to 1
        (snd (step (fst (run initial [Connection ''/debugger-proxy?role=debugger'',
                                       Connection ''/debugger-proxy?role=client'']))
                (SocketClose 0)))"
  by (simp add: connection_def initial_def Let_def dispatch_def
      client_handlers_def debugger_handlers_def no_handlers_def spec_nothing_sent_to_def)

lemma silent_step:
  "s < nextSocket b \<Longrightarrow> handlers b s = no_handlers \<Longrightarrow>
   s < nextSocket (fst (step b ev)) \<and> handlers (fst (step b ev)) s = no_handlers"
proof (cases ev)
  case (Connection url)
  assume "s < nextSocket b" "handlers b s = no_handlers"
  with Connection show ?thesis
    by (auto simp: connection_def Let_def split: option.splits)
next
  case (SocketClose x)
  assume "s < nextSocket b" "handlers b s = no_handlers"
  with SocketClose show ?thesis
    by (cases "onclose (handlers b x)"; cases "the (onclose (handlers b x))")
       (auto simp: dispatch_def)
next
  case (SocketError x)
  assume "s < nextSocket b" "handlers b s = no_handlers"
  with SocketError show ?thesis
    by (cases "onerror (handlers b x)"; cases "the (onerror (handlers b x))")
       (auto simp: dispatch_def)
next
  case (SocketMessage x data)
  assume "s < nextSocket b" "handlers b s = no_handlers"
  with SocketMessage show ?thesis
    by (cases "onmessage (handlers b x)"; cases "the (onmessage (handlers b x))")
       (auto simp: dispatch_def)
qed

lemma silent_run:
  "s < nextSocket b \<Longrightarrow> handlers b s = no_handlers \<Longrightarrow>
   s < nextSocket (fst (run b evs)) \<and> handlers (fst (run b evs)) s = no_handlers"
proof (induction evs arbitrary: b)
  case Nil
  then show ?case by simp
next
  case (Cons ev evs)
  from silent_step [OF Cons.prems]
  have "s < nextSocket (fst (step b ev))" "handlers (fst (step b ev)) s = no_handlers"
    by simp_all
  then show ?case
    unfolding fst_run_Cons by (rule Cons.IH)
qed

lemma no_handlers_step: "handlers b s = no_handlers \<Longrightarrow>
   step b (SocketClose s) = (b, []) \<and> step b (SocketError s) = (b, [])
   \<and> step b (SocketMessage s data) = (b, [])"
  by (simp add: dispatch_def no_handlers_def)

text \<open>
  The part of claim C10 that holds: a client that a new client evicts sends nothing to the
  debugger when it is evicted, and no later event of its socket has any effect.
\<close>

lemma evicted_client_is_silent:
  assumes "b = fst (run initial evs)" and "clientSocket b = Some c"
    and "indexOf url ''role=debugger'' = None" and "indexOf url ''role=client'' \<noteq> None"
    and "b' = fst (run (fst (step b (Connection url))) evs')"
  shows "filter is_send (snd (step b (Connection url))) = []
       \<and> step b' (SocketClose c) = (b', [])
       \<and> step b' (SocketError c) = (b', [])
       \<and> step b' (SocketMessage c data) = (b', [])"
proof -
  have w: "wf b" using assms(1) by (simp add: wf_reachable)
  note ev = evict_step [OF w assms(2,3,4)]
  have h: "handlers (fst (step b (Connection url))) c = no_handlers"
    using ev by simp
  have "c < nextSocket (fst (step b (Connection url)))"
    using ev by simp
  from silent_run [OF this h, of evs'] assms(5)
  have "handlers b' c = no_handlers" by simp
  from no_handlers_step [OF this] ev(1) show ?thesis by simp
qed

text \<open>
  Claim C10 says that the notification is sent only when the client in the slot closes or
  errors. A client that left on its own keeps its handlers. Here a debugger (socket 0)
  and a client (socket 1) connect, the client's \<^verbatim>\<open>error\<close> event fires, a second
  client (socket 2) connects and takes the empty slot, and then the \<^verbatim>\<open>close\<close>
  event of socket 1 fires: the handler of socket 1 clears the slot that holds socket 2
  and sends the notification to the debugger, though socket 2 neither closed nor erred.
\<close>

theorem C10_stale_client_close:
  "(let b = fst (run initial
       [Connection ''/debugger-proxy?role=debugger'', Connection ''/debugger-proxy?role=client'',
        SocketError 1, Connection ''/debugger-proxy?role=client''])
    in debuggerSocket b = Some 0 \<and> clientSocket b = Some 2
       \<and> snd (step b (SocketClose 1)) = [Send 0 disconnectedMessage]
       \<and> clientSocket (fst (step b (SocketClose 1))) = None)"
  by (simp add: connection_def initial_def Let_def dispatch_def send_def
      client_handlers_def debugger_handlers_def no_handlers_def)

section \<open>The HMR server: classification of a change and order of the batch\<close>

lemma list_all_upt: "list_all P [0..<n] \<longleftrightarrow> (\<forall>i<n. P i)"
  by (auto simp: list_all_iff)

lemma arrayEquals_iff: "arrayEquals a b \<longleftrightarrow> or_empty a = or_empty b"
proof -
  have "arrayEquals a b \<longleftrightarrow>
      length (or_empty a) = length (or_empty b)
      \<and> (\<forall>i<length (or_empty a). or_empty a ! i = or_empty b ! i)"
    by (simp add: arrayEquals_def Let_def list_all_upt)
  also have "\<dots> \<longleftrightarrow> or_empty a = or_empty b"
    by (rule list_eq_iff_nth_eq [symmetric])
  finally show ?thesis .
qed

lemma keys_obj_set:
  "map fst (obj_set obj k v) = (if k \<in> fst ` set obj then map fst obj else map fst obj @ [k])"
proof (induction obj)
  case Nil
  then show ?case by simp
next
  case (Cons kv obj)
  obtain k' v' where kv: "kv = (k', v')" by (cases kv)
  show ?case
  proof (cases "k' = k")
    case True
    then show ?thesis by (simp add: kv)
  next
    case False
    with Cons.IH show ?thesis by (simp add: kv)
  qed
qed

lemma map_of_obj_set: "map_of (obj_set obj k v) = (map_of obj)(k \<mapsto> v)"
  by (induction obj) (auto simp: fun_eq_iff)

lemma keys_foldl_set:
  "set (map fst (foldl (\<lambda>obj x. obj_set obj (key x) (val x)) acc xs))
     = fst ` set acc \<union> key ` set xs"
proof (induction xs arbitrary: acc)
  case Nil
  then show ?case by simp
next
  case (Cons x xs)
  have "set (map fst (obj_set acc (key x) (val x))) = insert (key x) (fst ` set acc)"
    by (auto simp: keys_obj_set)
  with Cons.IH [of "obj_set acc (key x) (val x)"] show ?case by auto
qed

lemma filter_keys_foldl:
  "distinct (filter P (map fst acc @ map key xs)) \<Longrightarrow>
   filter P (map fst (foldl (\<lambda>obj x. obj_set obj (key x) (val x)) acc xs))
     = filter P (map fst acc @ map key xs)"
proof (induction xs arbitrary: acc)
  case Nil
  then show ?case by simp
next
  case (Cons x xs)
  let ?acc = "obj_set acc (key x) (val x)"
  show ?case
  proof (cases "key x \<in> fst ` set acc")
    case True
    then have keys: "map fst ?acc = map fst acc" by (simp add: keys_obj_set)
    have notP: "\<not> P (key x)"
    proof
      assume "P (key x)"
      with True have "key x \<in> set (filter P (map fst acc))" by auto
      moreover from \<open>P (key x)\<close> have "key x \<in> set (filter P (map key (x # xs)))" by simp
      ultimately show False using Cons.prems by auto
    qed
    from Cons.prems notP have "distinct (filter P (map fst ?acc @ map key xs))"
      by (simp add: keys)
    from Cons.IH [OF this] notP show ?thesis by (simp add: keys)
  next
    case False
    then have keys: "map fst ?acc = map fst acc @ [key x]" by (simp add: keys_obj_set)
    from Cons.prems have "distinct (filter P (map fst ?acc @ map key xs))"
      by (simp add: keys)
    from Cons.IH [OF this] show ?thesis by (simp add: keys)
  qed
qed

lemma lookup_foldl_absent:
  "k \<notin> key ` set xs \<Longrightarrow>
   map_of (foldl (\<lambda>obj x. obj_set obj (key x) (val x)) acc xs) k = map_of acc k"
  by (induction xs arbitrary: acc) (auto simp: map_of_obj_set)

lemma lookup_foldl_unique:
  "d \<in> set xs \<Longrightarrow> (\<forall>x\<in>set xs. key x = key d \<longrightarrow> x = d) \<Longrightarrow>
   map_of (foldl (\<lambda>obj x. obj_set obj (key x) (val x)) acc xs) (key d) = Some (val d)"
proof (induction xs arbitrary: acc)
  case Nil
  then show ?case by simp
next
  case (Cons x xs)
  show ?case
  proof (cases "d \<in> set xs")
    case True
    from Cons.prems(2) have "\<forall>y\<in>set xs. key y = key d \<longrightarrow> y = d" by simp
    from Cons.IH [OF True this] show ?thesis by simp
  next
    case False
    with Cons.prems(1) have dx: "x = d" by simp
    from False Cons.prems(2) have "key d \<notin> key ` set xs" by auto
    then show ?thesis by (simp add: dx lookup_foldl_absent map_of_obj_set)
  qed
qed

lemma foldl_push:
  "foldl (\<lambda>acc key. if P key then (case g key of None \<Rightarrow> acc | Some m \<Rightarrow> acc @ [m]) else acc)
     acc keys
   = acc @ List.map_filter (\<lambda>key. if P key then g key else None) keys"
  by (induction keys arbitrary: acc) (auto simp: List.map_filter_simps split: option.splits)

lemma map_filter_filter:
  assumes "\<And>x. x \<in> set xs \<Longrightarrow> \<not> Q x \<Longrightarrow> g x = None"
  shows "List.map_filter g xs = List.map_filter g (filter Q xs)"
proof -
  have "filter (\<lambda>x. g x \<noteq> None) xs = filter (\<lambda>x. Q x \<and> g x \<noteq> None) xs"
  proof (rule filter_cong [OF refl])
    fix x assume "x \<in> set xs"
    with assms [of x] show "(g x \<noteq> None) = (Q x \<and> g x \<noteq> None)" by (cases "Q x") auto
  qed
  then show ?thesis by (simp add: List.map_filter_def)
qed

lemma map_filter_lookup:
  "(\<And>x. x \<in> set xs \<Longrightarrow> g (f x) = Some x) \<Longrightarrow> List.map_filter g (map f xs) = xs"
  by (induction xs) (auto simp: List.map_filter_simps)

lemma modulesToUpdate_order:
  assumes dist: "distinct (map mod_name (filter (\<lambda>dep. obj_get oldCache (mod_name dep) = None) resolved))"
    and plain: "list_all (\<lambda>dep. \<not> is_array_index (mod_name dep))
                  (filter (\<lambda>dep. obj_get oldCache (mod_name dep) = None) resolved)"
  shows "modulesToUpdate pk filename oldCache (moduleIndex resolved)
       = rev (getModuleForPath pk filename
              # filter (\<lambda>dep. obj_get oldCache (mod_name dep) = None) resolved)"
proof -
  let ?P = "\<lambda>k. obj_get oldCache k = None"
  let ?new = "filter (\<lambda>dep. ?P (mod_name dep)) resolved"
  let ?idx = "moduleIndex resolved"
  let ?ks = "map fst ?idx"
  let ?g = "\<lambda>k. if ?P k then obj_get ?idx k else None"
  have ks_set: "set ?ks = mod_name ` set resolved"
    using keys_foldl_set [of mod_name "\<lambda>dep. dep" "[]" resolved] by (simp add: moduleIndex_def)
  have newkey_plain: "\<not> is_array_index k" if "k \<in> set ?ks" "?P k" for k
  proof -
    from that ks_set obtain d where "d \<in> set resolved" "k = mod_name d" by auto
    with that(2) have "d \<in> set ?new" by simp
    with plain \<open>k = mod_name d\<close> show ?thesis by (auto simp: list_all_iff)
  qed
  have fm: "filter ?P (map mod_name resolved) = map mod_name ?new"
    by (simp add: filter_map comp_def)
  have "distinct (filter ?P (map fst [] @ map mod_name resolved))"
    by (simp add: fm dist)
  from filter_keys_foldl [of ?P "[]" mod_name resolved "\<lambda>dep. dep", OF this]
  have fks: "filter ?P ?ks = map mod_name ?new" by (simp add: fm moduleIndex_def)
  have f1: "filter ?P (sort_key index_value (filter is_array_index ?ks)) = []"
    using newkey_plain by (auto simp: filter_empty_conv)
  have f2: "filter ?P (filter (\<lambda>k. \<not> is_array_index k) ?ks) = filter ?P ?ks"
    using newkey_plain by (auto intro: filter_cong)
  have fkeys: "filter ?P (obj_keys ?idx) = map mod_name ?new"
    unfolding obj_keys_def filter_append f1 f2 fks by simp
  have look: "?g (mod_name d) = Some d" if "d \<in> set ?new" for d
  proof -
    from that have din: "d \<in> set resolved" and Pd: "?P (mod_name d)" by simp_all
    have uniq: "\<forall>x\<in>set resolved. mod_name x = mod_name d \<longrightarrow> x = d"
    proof (intro ballI impI)
      fix x assume "x \<in> set resolved" "mod_name x = mod_name d"
      with Pd have "x \<in> set ?new" by simp
      with that \<open>mod_name x = mod_name d\<close> dist show "x = d"
        by (auto simp: distinct_map dest: inj_onD)
    qed
    from lookup_foldl_unique [OF din uniq, of "\<lambda>dep. dep" "[]"]
    have "obj_get ?idx (mod_name d) = Some d" by (simp add: moduleIndex_def obj_get_def)
    with Pd show ?thesis by simp
  qed
  have "List.map_filter ?g (obj_keys ?idx) = List.map_filter ?g (filter ?P (obj_keys ?idx))"
  proof (rule map_filter_filter)
    fix k assume "\<not> ?P k"
    then show "?g k = None" by (simp only: if_False)
  qed
  also have "\<dots> = List.map_filter ?g (map mod_name ?new)" by (simp only: fkeys)
  also have "\<dots> = ?new" by (rule map_filter_lookup) (rule look)
  finally have mf: "List.map_filter ?g (obj_keys ?idx) = ?new" .
  show ?thesis
    unfolding modulesToUpdate_def foldl_push mf by simp
qed

lemma modulesToUpdate_last:
  "last (modulesToUpdate pk filename oldCache newCache) = getModuleForPath pk filename"
  unfolding modulesToUpdate_def foldl_push by (simp add: last_rev)

text \<open>
  Claim C2, amended. A change is classified shallow-equivalent exactly when the freshly
  fetched specifiers equal, as an ordered sequence, the session's cached list for the
  file, an absent cached entry counting as the empty list. So a file with no cached entry
  is classified structural only when its fresh specifiers are not empty.
\<close>

theorem C2_shallowEquivalent:
  "shallowEquivalent c filename deps
     = (deps = (case obj_get (c_shallowDependencies c) filename of
                  None \<Rightarrow> [] | Some oldDependencies \<Rightarrow> oldDependencies))"
  by (auto simp: shallowEquivalent_def arrayEquals_iff or_empty_def split: option.splits)

lemma getDependencies_snapshot:
  "getDependencies pk platform bundleEntry = (calls, Inr snap) \<Longrightarrow>
   snap_dependenciesModulesCache snap
     = moduleIndex (nameResolutionOrder pk (dependencies (snap_resolutionResponse snap)))
   \<and> snap_dependenciesCache snap = map mod_path (dependencies (snap_resolutionResponse snap))"
  by (auto simp: getDependencies_def Let_def split: sum.splits)

lemma resolveChange_structural:
  assumes "getShallowDependencies (env_pk env) filename = Inr deps"
    and "\<not> shallowEquivalent c filename deps"
    and "getDependencies (env_pk env) (c_platform c) (c_bundleEntry c) = (calls2, Inr snap)"
    and "env_closedDuring env \<noteq> Some 1" and "env_closedDuring env \<noteq> Some 2"
  shows "resolveChange env filename (Some c) =
           (GetShallowDependencies filename # calls2, Some (invalidateCaches c snap),
            Inr (Resolution
                   (copy (snap_resolutionResponse snap)
                      (modulesToUpdate (env_pk env) filename (c_dependenciesModulesCache c)
                         (snap_dependenciesModulesCache snap)))))"
  using assms by (simp add: resolveChange_def after_await_def Let_def)

lemma resolveChange_shallow:
  assumes "getShallowDependencies (env_pk env) filename = Inr deps"
    and "shallowEquivalent c filename deps"
    and "pk_getDependencies (env_pk env) (shallowRequest c filename) = Inr response"
    and "env_closedDuring env \<noteq> Some 1" and "env_closedDuring env \<noteq> Some 2"
  shows "resolveChange env filename (Some c) =
           ([GetShallowDependencies filename, GetDependencies (shallowRequest c filename)],
            Some c,
            Inr (Resolution (copy response [getModuleForPath (env_pk env) filename])))"
  using assms by (simp add: resolveChange_def after_await_def Let_def)

text \<open>
  The part of claim C1 that holds. On a structural change that rebuilds the snapshot with
  the connection open, the batch always ends with the module of the changed file. When
  the names resolve in the order of the resolver's list, and the modules whose name the
  session's index lacks have pairwise distinct names of which none is an array index, the
  batch is the reverse of the changed file's module followed by those modules in the order
  the resolver yields them.
\<close>

lemma structural_order:
  assumes "getShallowDependencies (env_pk env) filename = Inr deps"
    and "\<not> shallowEquivalent c filename deps"
    and "snd (getDependencies (env_pk env) (c_platform c) (c_bundleEntry c)) = Inr snap"
    and "env_closedDuring env \<noteq> Some 1" and "env_closedDuring env \<noteq> Some 2"
  shows "(\<exists>ms. updateBatch env filename c = Some ms
            \<and> last ms = getModuleForPath (env_pk env) filename)
       \<and> (nameResolutionOrder (env_pk env) (dependencies (snap_resolutionResponse snap))
              = dependencies (snap_resolutionResponse snap)
            \<and> distinct (map mod_name
                  (filter (\<lambda>dep. obj_get (c_dependenciesModulesCache c) (mod_name dep) = None)
                     (dependencies (snap_resolutionResponse snap))))
            \<and> list_all (\<lambda>dep. \<not> is_array_index (mod_name dep))
                  (filter (\<lambda>dep. obj_get (c_dependenciesModulesCache c) (mod_name dep) = None)
                     (dependencies (snap_resolutionResponse snap)))
          \<longrightarrow> updateBatch env filename c =
                Some (spec_orderedModules (getModuleForPath (env_pk env) filename)
                        (c_dependenciesModulesCache c)
                        (dependencies (snap_resolutionResponse snap))))"
proof -
  obtain calls2 where gd:
    "getDependencies (env_pk env) (c_platform c) (c_bundleEntry c) = (calls2, Inr snap)"
    using assms(3) by (cases "getDependencies (env_pk env) (c_platform c) (c_bundleEntry c)") simp
  note rc = resolveChange_structural [OF assms(1,2) gd assms(4,5)]
  have batch: "updateBatch env filename c =
      Some (modulesToUpdate (env_pk env) filename (c_dependenciesModulesCache c)
              (snap_dependenciesModulesCache snap))"
    by (simp add: updateBatch_def rc copy_def)
  have idx: "snap_dependenciesModulesCache snap
      = moduleIndex (nameResolutionOrder (env_pk env) (dependencies (snap_resolutionResponse snap)))"
    using getDependencies_snapshot [OF gd] by simp
  show ?thesis
    by (simp add: batch modulesToUpdate_last idx modulesToUpdate_order spec_orderedModules_def)
qed

lemma is_array_index_examples:
  "\<not> is_array_index ''A''" "\<not> is_array_index ''B''" "\<not> is_array_index ''C''"
  "\<not> is_array_index ''D''"
  "is_array_index ''1''" "is_array_index ''2''" "\<not> is_array_index ''c/index.js''"
  by (simp_all add: is_array_index_def is_digit_def index_value_def)

lemmas cycle_defs = updateBatch_def resolveChange_def after_await_def Let_def example_env_def
  example_pk_def shallowEquivalent_def arrayEquals_def or_empty_def obj_get_def
  example_client_def getDependencies_def shallowEntry_def is_leaf_def moduleIndex_def
  shallowIndex_def promise_all_def copy_def modulesToUpdate_def obj_keys_def
  mod_A_def mod_B_def mod_C_def mod_D_def source_module_def

lemma batch_example:
  "updateBatch (example_env pk_after None) ''/A.js'' example_client = Some [mod_C, mod_A]"
  by (simp add: cycle_defs pk_after_def shallow_after_def is_array_index_examples)

lemma batch_duplicate:
  "updateBatch (example_env pk_duplicate None) ''/A.js'' example_client
     = Some [source_module ''/y/c.js'' ''c/index.js'', mod_A]"
  by (simp add: cycle_defs pk_duplicate_def shallow_requires_def is_array_index_examples)

lemma batch_out_of_order:
  "updateBatch (example_env pk_out_of_order None) ''/A.js'' example_client
     = Some [mod_C, mod_D, mod_A]"
  by (simp add: cycle_defs pk_out_of_order_def shallow_requires_def is_array_index_examples)

lemma batch_numeric:
  "updateBatch (example_env pk_numeric None) ''/A.js'' example_client
     = Some [source_module ''/two.js'' ''2'', source_module ''/one.js'' ''1'', mod_A]"
  by (simp add: cycle_defs pk_numeric_def shallow_requires_def is_array_index_examples
      index_value_def)

text \<open>
  Claim C1 says that the batch of a structural change is
  \<^verbatim>\<open>reverse([filename] ++ newly_discovered_in_BFS_order)\<close>, which is what the comment
  at lines 179-186 intends. Here \<^verbatim>\<open>/A.js\<close> comes to require two new modules whose
  names are \<^verbatim>\<open>2\<close> and \<^verbatim>\<open>1\<close>, and the resolver yields them in this order.
  \<^verbatim>\<open>Object.keys(dependenciesModulesCache)\<close> lists the keys that are array indices
  first, in ascending order, so the loop pushes the module \<^verbatim>\<open>1\<close> before the module
  \<^verbatim>\<open>2\<close>: after the reversal the new modules are in the order of the resolver, not
  in its reverse.
\<close>

theorem C1_batch_not_in_reverse_resolver_order:
  "updateBatch (example_env pk_numeric None) ''/A.js'' example_client
     = Some [source_module ''/two.js'' ''2'', source_module ''/one.js'' ''1'', mod_A]
   \<and> spec_orderedModules mod_A (c_dependenciesModulesCache example_client)
        [mod_A, mod_B, source_module ''/two.js'' ''2'', source_module ''/one.js'' ''1'']
     = [source_module ''/one.js'' ''1'', source_module ''/two.js'' ''2'', mod_A]
   \<and> updateBatch (example_env pk_numeric None) ''/A.js'' example_client
     \<noteq> Some (spec_orderedModules mod_A (c_dependenciesModulesCache example_client)
               [mod_A, mod_B, source_module ''/two.js'' ''2'', source_module ''/one.js'' ''1''])"
proof -
  have 1: "spec_orderedModules mod_A (c_dependenciesModulesCache example_client)
        [mod_A, mod_B, source_module ''/two.js'' ''2'', source_module ''/one.js'' ''1'']
     = [source_module ''/one.js'' ''1'', source_module ''/two.js'' ''2'', mod_A]"
    by (simp add: spec_orderedModules_def example_client_def obj_get_def mod_A_def mod_B_def
        source_module_def)
  show ?thesis
    unfolding batch_numeric 1 by (simp add: source_module_def)
qed

text \<open>
  Two other ways in which the batch leaves the order of claim C1. With two new modules
  of one name the index keeps one entry, that of the second, and the first is missing
  from the batch. When the name of \<^verbatim>\<open>/D.js\<close> resolves before the name of
  \<^verbatim>\<open>/C.js\<close>, which the resolver yields first, the index is written in that order
  and the batch has \<^verbatim>\<open>/C.js\<close> before \<^verbatim>\<open>/D.js\<close>.
\<close>

lemma batch_leaves_resolver_order:
  "updateBatch (example_env pk_duplicate None) ''/A.js'' example_client
     = Some [source_module ''/y/c.js'' ''c/index.js'', mod_A]
   \<and> spec_orderedModules mod_A (c_dependenciesModulesCache example_client)
        [mod_A, mod_B, source_module ''/x/c.js'' ''c/index.js'',
         source_module ''/y/c.js'' ''c/index.js'']
     = [source_module ''/y/c.js'' ''c/index.js'', source_module ''/x/c.js'' ''c/index.js'',
        mod_A]
   \<and> updateBatch (example_env pk_out_of_order None) ''/A.js'' example_client
     = Some [mod_C, mod_D, mod_A]
   \<and> spec_orderedModules mod_A (c_dependenciesModulesCache example_client)
        [mod_A, mod_B, mod_C, mod_D]
     = [mod_D, mod_C, mod_A]"
proof -
  have 2: "spec_orderedModules mod_A (c_dependenciesModulesCache example_client)
        [mod_A, mod_B, source_module ''/x/c.js'' ''c/index.js'',
         source_module ''/y/c.js'' ''c/index.js'']
     = [source_module ''/y/c.js'' ''c/index.js'', source_module ''/x/c.js'' ''c/index.js'',
        mod_A]"
    by (simp add: spec_orderedModules_def example_client_def obj_get_def mod_A_def mod_B_def
        source_module_def)
  have 3: "spec_orderedModules mod_A (c_dependenciesModulesCache example_client)
        [mod_A, mod_B, mod_C, mod_D]
     = [mod_D, mod_C, mod_A]"
    by (simp add: spec_orderedModules_def example_client_def obj_get_def mod_A_def mod_B_def
        mod_C_def mod_D_def source_module_def)
  show ?thesis
    unfolding batch_duplicate batch_out_of_order 2 3 by simp
qed

text \<open>
  Claim C2, as the specification states it, fails: for a file that has no cached entry and
  whose fresh specifiers are empty, \<^verbatim>\<open>arrayEquals\<close> compares two empty arrays and the
  change is classified shallow-equivalent.
\<close>

theorem C2_absent_entry_counterexample:
  "obj_get (c_shallowDependencies example_client) ''/New.js'' = None
   \<and> shallowEquivalent example_client ''/New.js'' []
   \<and> \<not> spec_shallowEquivalent [] (obj_get (c_shallowDependencies example_client) ''/New.js'')"
  by (simp add: shallowEquivalent_def arrayEquals_def or_empty_def obj_get_def
      example_client_def spec_shallowEquivalent_def)

text \<open>
  Claim C3 says that the shallow-equivalent path asks for a non-recursive re-resolution.
  Here \<^verbatim>\<open>/A.js\<close> changes and its requires do not: the request to
  \<^verbatim>\<open>packagerServer.getDependencies\<close> is for \<^verbatim>\<open>/A.js\<close> with
  \<^verbatim>\<open>recursive: true\<close>. The snapshot is not rebuilt and the batch is the one module
  of \<^verbatim>\<open>/A.js\<close>.
\<close>

theorem C3_shallow_path_is_recursive:
  "res_calls (fileChangeListener inv_before (example_env pk_before None) ''/A.js''
                (Some example_client))
     = [GetShallowDependencies ''/A.js'',
        GetDependencies \<lparr>rq_platform = ''ios'', rq_dev = True, rq_entryFile = ''/A.js'',
                         rq_recursive = Some True\<rparr>,
        BuildBundleForHMR
          \<lparr>br_entryFile = ''/A.js'', br_platform = ''ios'',
           br_resolutionResponse =
             Resolution \<lparr>dependencies = [mod_A], mainModuleId = ''/A.js''\<rparr>\<rparr>
          ''localhost'' 8081]
   \<and> updateBatch (example_env pk_before None) ''/A.js'' example_client = Some [mod_A]"
  by (simp add: fileChangeListener_def changePipeline_def buildUpdate_def updateBatch_def
      resolveChange_def after_await_def Let_def example_env_def shallowRequest_def
      pk_before_def example_pk_def shallow_before_def shallowEquivalent_def arrayEquals_def
      or_empty_def obj_get_def example_client_def copy_def packagerHost_cases
      example_bundle_def makeUpdate_def)

section \<open>The HMR server: the messages of a change cycle\<close>







lemma makeUpdate_kind:
  "makeUpdate imap cl b = Some u \<Longrightarrow>
   is_update_or_error u \<and> (\<forall>body. u = Update body \<longrightarrow> inverseDependencies body = imap)"
  by (auto simp: makeUpdate_def split: option.splits if_splits)

lemma catchHandler_kind:
  "catchHandler e = Settled (Some u) \<Longrightarrow>
   is_update_or_error u \<and> (\<forall>body. u = Update body \<longrightarrow> inverseDependencies body = imap)"
  by (auto simp: catchHandler_def split: rejection.splits)

lemma changePipeline_kind:
  "changePipeline imap env filename cl0 = (calls, cl', Settled (Some u)) \<Longrightarrow>
   is_update_or_error u \<and> (\<forall>body. u = Update body \<longrightarrow> inverseDependencies body = imap)"
  unfolding changePipeline_def
  by (auto split: prod.splits sum.splits dest: makeUpdate_kind catchHandler_kind)

lemma sendUpdate_cases:
  "sendUpdate cl update = [] \<or> (\<exists>u. update = Some u \<and> cl \<noteq> None \<and> sendUpdate cl update = [u])"
  by (auto simp: sendUpdate_def split: option.splits)




lemma listener_closed:
  "fileChangeListener imap env filename None
     = \<lparr>res_sent = [], res_calls = [], res_client = None, res_unhandled = False\<rparr>"
  by (simp add: fileChangeListener_def)

lemma listener_sent:
  "if res_unhandled (fileChangeListener imap env filename (Some c))
   then res_sent (fileChangeListener imap env filename (Some c)) = [UpdateStart]
   else res_client (fileChangeListener imap env filename (Some c)) \<noteq> None
      \<and> (\<exists>mid. res_sent (fileChangeListener imap env filename (Some c))
               = UpdateStart # mid @ [UpdateDone]
             \<and> length mid \<le> 1 \<and> list_all is_update_or_error mid
             \<and> (\<forall>body. Update body \<in> set mid \<longrightarrow> inverseDependencies body = imap))"
proof (cases "env_fileRemoved env")
  case True
  then show ?thesis
    by (simp add: fileChangeListener_def sendUpdate_def split: option.splits)
next
  case False
  obtain calls cl' out where cp:
    "changePipeline imap env filename (after_await env 0 (Some c)) = (calls, cl', out)"
    by (cases "changePipeline imap env filename (after_await env 0 (Some c))") auto
  show ?thesis
  proof (cases out)
    case HandlerThrew
    with False cp show ?thesis by (simp add: fileChangeListener_def)
  next
    case (Settled update)
    show ?thesis
    proof (cases cl')
      case None
      with False cp Settled show ?thesis by (simp add: fileChangeListener_def)
    next
      case (Some c')
      from sendUpdate_cases [of cl' update]
      show ?thesis
      proof
        assume "sendUpdate cl' update = []"
        with False cp Settled Some show ?thesis by (simp add: fileChangeListener_def)
      next
        assume "\<exists>u. update = Some u \<and> cl' \<noteq> None \<and> sendUpdate cl' update = [u]"
        then obtain u where u: "update = Some u" "sendUpdate cl' update = [u]" by auto
        from changePipeline_kind [OF cp [unfolded Settled u(1)]]
        have "is_update_or_error u"
          and "\<forall>body. u = Update body \<longrightarrow> inverseDependencies body = imap" by simp_all
        with False cp Settled Some u show ?thesis by (simp add: fileChangeListener_def)
      qed
    qed
  qed
qed
















section \<open>The HMR server: errors of a change cycle\<close>

lemma errorBody_cases:
  "(err_type e = Some ''TransformError'' \<or> err_type e = Some ''NotFoundError''
      \<or> err_type e = Some ''UnableToResolveError''
    \<longrightarrow> errorBody e =
          \<lparr>body_type = the (err_type e), body_description = err_description e,
           body_filename = err_filename e, body_lineNumber = err_lineNumber e\<rparr>)
   \<and> (err_type e \<noteq> Some ''TransformError'' \<and> err_type e \<noteq> Some ''NotFoundError''
      \<and> err_type e \<noteq> Some ''UnableToResolveError''
    \<longrightarrow> errorBody e =
          \<lparr>body_type = ''InternalError'', body_description = Some internalErrorDescription,
           body_filename = None, body_lineNumber = None\<rparr>)"
  by (simp add: errorBody_def)

lemma snapshot_rejections:
  "pk_getDependencies pk \<lparr>rq_platform = platform, rq_dev = True, rq_entryFile = bundleEntry,
                          rq_recursive = None\<rparr> = Inl r
     \<Longrightarrow> snd (getDependencies pk platform bundleEntry) = Inl r"
  "pk_getDependencies pk \<lparr>rq_platform = platform, rq_dev = True, rq_entryFile = bundleEntry,
                          rq_recursive = None\<rparr> = Inr response
     \<Longrightarrow> rejections (map (shallowEntry pk) (dependencies response)) \<noteq> []
     \<Longrightarrow> snd (getDependencies pk platform bundleEntry)
           = Inl (firstRejection pk (rejections (map (shallowEntry pk) (dependencies response))))"
  "pk_getDependencies pk \<lparr>rq_platform = platform, rq_dev = True, rq_entryFile = bundleEntry,
                          rq_recursive = None\<rparr> = Inr response
     \<Longrightarrow> rejections (map (shallowEntry pk) (dependencies response)) = []
     \<Longrightarrow> getInverseDependencies pk response = Inl r
     \<Longrightarrow> snd (getDependencies pk platform bundleEntry) = Inl r"
  by (simp_all add: getDependencies_def Let_def promise_all_def)

lemma resolution_rejections:
  assumes "env_closedDuring env = None"
  shows "getShallowDependencies (env_pk env) filename = Inl r
           \<Longrightarrow> snd (resolveChange env filename (Some c)) = (Some c, Inl r)"
    and "getShallowDependencies (env_pk env) filename = Inr deps
           \<Longrightarrow> shallowEquivalent c filename deps
           \<Longrightarrow> pk_getDependencies (env_pk env) (shallowRequest c filename) = Inl r
           \<Longrightarrow> snd (resolveChange env filename (Some c)) = (Some c, Inl r)"
    and "getShallowDependencies (env_pk env) filename = Inr deps
           \<Longrightarrow> \<not> shallowEquivalent c filename deps
           \<Longrightarrow> snd (getDependencies (env_pk env) (c_platform c) (c_bundleEntry c)) = Inl r
           \<Longrightarrow> snd (resolveChange env filename (Some c)) = (Some c, Inl r)"
  using assms
  by (auto simp: resolveChange_def after_await_def Let_def split: prod.splits)

lemma bundler_rejection:
  assumes "env_closedDuring env = None"
    and "obj_get (c_shallowDependencies c') filename \<noteq> None"
    and "buildBundleForHMR (env_pk env)
           \<lparr>br_entryFile = c_bundleEntry c', br_platform = c_platform c',
            br_resolutionResponse = resolutionResponse\<rparr>
           (packagerHost (env_address env)) (port (env_address env)) = Inl r"
  shows "snd (buildUpdate env filename (Some c') resolutionResponse) = (Some c', Inl r)"
  using assms by (simp add: buildUpdate_def after_await_def Let_def)

lemma rejection_is_sent:
  assumes "\<not> env_fileRemoved env" and "env_closedDuring env = None"
    and "snd (resolveChange env filename (Some c)) = (Some c1, Inl (Thrown e))
       \<or> (\<exists>res. snd (resolveChange env filename (Some c)) = (Some c1, Inr res)
              \<and> snd (buildUpdate env filename (Some c1) res) = (Some c1, Inl (Thrown e)))"
  shows "res_sent (fileChangeListener imap env filename (Some c))
           = [UpdateStart, ErrorMsg (errorBody e), UpdateDone]
       \<and> res_client (fileChangeListener imap env filename (Some c)) = Some c1
       \<and> \<not> res_unhandled (fileChangeListener imap env filename (Some c))"
proof -
  obtain calls1 cl1 r1 where rc: "resolveChange env filename (Some c) = (calls1, cl1, r1)"
    by (cases "resolveChange env filename (Some c)") auto
  have "\<exists>calls. changePipeline imap env filename (Some c)
      = (calls, Some c1, Settled (Some (ErrorMsg (errorBody e))))"
    using assms(3)
  proof
    assume "snd (resolveChange env filename (Some c)) = (Some c1, Inl (Thrown e))"
    with rc show ?thesis by (simp add: changePipeline_def catchHandler_def)
  next
    assume "\<exists>res. snd (resolveChange env filename (Some c)) = (Some c1, Inr res)
              \<and> snd (buildUpdate env filename (Some c1) res) = (Some c1, Inl (Thrown e))"
    then obtain res where r: "snd (resolveChange env filename (Some c)) = (Some c1, Inr res)"
      and b: "snd (buildUpdate env filename (Some c1) res) = (Some c1, Inl (Thrown e))"
      by auto
    obtain calls2 where "buildUpdate env filename (Some c1) res = (calls2, Some c1, Inl (Thrown e))"
      using b by (cases "buildUpdate env filename (Some c1) res") auto
    with rc r show ?thesis by (simp add: changePipeline_def catchHandler_def)
  qed
  then obtain calls where cp: "changePipeline imap env filename (Some c)
      = (calls, Some c1, Settled (Some (ErrorMsg (errorBody e))))" by auto
  with assms(1,2) show ?thesis
    by (simp add: fileChangeListener_def after_await_def sendUpdate_def)
qed

text \<open>
  Claim C6 says that every error raised inside a change cycle is caught and turned into
  an \<^verbatim>\<open>error\<close> message. Here the promise of
  \<^verbatim>\<open>packagerServer.getShallowDependencies\<close> is rejected with \<^verbatim>\<open>undefined\<close>.
  The catch handler reads \<^verbatim>\<open>error.type\<close> (line 240), which throws inside the
  handler: the connection is open, \<^verbatim>\<open>update-start\<close> has been sent, and neither
  an \<^verbatim>\<open>error\<close> message nor \<^verbatim>\<open>update-done\<close> follows; the rejection is
  handled by nothing.
\<close>

theorem C6_undefined_rejection_is_not_handled:
  "fileChangeListener inv_before (example_env pk_rejecting_undefined None) ''/A.js''
     (Some example_client)
   = \<lparr>res_sent = [UpdateStart], res_calls = [GetShallowDependencies ''/A.js''],
      res_client = Some example_client, res_unhandled = True\<rparr>"
  by (simp add: fileChangeListener_def changePipeline_def resolveChange_def after_await_def
      Let_def example_env_def pk_rejecting_undefined_def pk_before_def example_pk_def
      catchHandler_def)

text \<open>
  The part of claim C6 that holds. With the file present and the connection open, a
  rejection with a value \<open>e\<close> other than \<^verbatim>\<open>null\<close> and \<^verbatim>\<open>undefined\<close>, of
  the shallow dependencies of the changed file, of the re-resolution of the
  shallow-equivalent path, of the snapshot of the structural path or of the bundler,
  gives the messages \<^verbatim>\<open>update-start\<close>, \<^verbatim>\<open>error\<close> with the body
  \<open>errorBody e\<close> and \<^verbatim>\<open>update-done\<close>, and the session stays.
\<close>

lemma collaborator_rejection_becomes_error_message:
  assumes "\<not> env_fileRemoved env" and "env_closedDuring env = None"
  shows "getShallowDependencies (env_pk env) filename = Inl (Thrown e)
           \<Longrightarrow> res_sent (fileChangeListener imap env filename (Some c))
                 = [UpdateStart, ErrorMsg (errorBody e), UpdateDone]
               \<and> res_client (fileChangeListener imap env filename (Some c)) = Some c
               \<and> \<not> res_unhandled (fileChangeListener imap env filename (Some c))"
    and "getShallowDependencies (env_pk env) filename = Inr deps
           \<Longrightarrow> shallowEquivalent c filename deps
           \<Longrightarrow> pk_getDependencies (env_pk env) (shallowRequest c filename) = Inl (Thrown e)
           \<Longrightarrow> res_sent (fileChangeListener imap env filename (Some c))
                 = [UpdateStart, ErrorMsg (errorBody e), UpdateDone]
               \<and> res_client (fileChangeListener imap env filename (Some c)) = Some c
               \<and> \<not> res_unhandled (fileChangeListener imap env filename (Some c))"
    and "getShallowDependencies (env_pk env) filename = Inr deps
           \<Longrightarrow> \<not> shallowEquivalent c filename deps
           \<Longrightarrow> snd (getDependencies (env_pk env) (c_platform c) (c_bundleEntry c))
                 = Inl (Thrown e)
           \<Longrightarrow> res_sent (fileChangeListener imap env filename (Some c))
                 = [UpdateStart, ErrorMsg (errorBody e), UpdateDone]
               \<and> res_client (fileChangeListener imap env filename (Some c)) = Some c
               \<and> \<not> res_unhandled (fileChangeListener imap env filename (Some c))"
    and "snd (resolveChange env filename (Some c)) = (Some c1, Inr resolutionResponse)
           \<Longrightarrow> obj_get (c_shallowDependencies c1) filename \<noteq> None
           \<Longrightarrow> buildBundleForHMR (env_pk env)
                 \<lparr>br_entryFile = c_bundleEntry c1, br_platform = c_platform c1,
                  br_resolutionResponse = resolutionResponse\<rparr>
                 (packagerHost (env_address env)) (port (env_address env)) = Inl (Thrown e)
           \<Longrightarrow> res_sent (fileChangeListener imap env filename (Some c))
                 = [UpdateStart, ErrorMsg (errorBody e), UpdateDone]
               \<and> res_client (fileChangeListener imap env filename (Some c)) = Some c1
               \<and> \<not> res_unhandled (fileChangeListener imap env filename (Some c))"
proof -
  note sent = rejection_is_sent [OF assms]
  note res = resolution_rejections [OF assms(2)]
  show "getShallowDependencies (env_pk env) filename = Inl (Thrown e)
           \<Longrightarrow> res_sent (fileChangeListener imap env filename (Some c))
                 = [UpdateStart, ErrorMsg (errorBody e), UpdateDone]
               \<and> res_client (fileChangeListener imap env filename (Some c)) = Some c
               \<and> \<not> res_unhandled (fileChangeListener imap env filename (Some c))"
    by (rule sent) (simp add: res(1))
  show "getShallowDependencies (env_pk env) filename = Inr deps
           \<Longrightarrow> shallowEquivalent c filename deps
           \<Longrightarrow> pk_getDependencies (env_pk env) (shallowRequest c filename) = Inl (Thrown e)
           \<Longrightarrow> res_sent (fileChangeListener imap env filename (Some c))
                 = [UpdateStart, ErrorMsg (errorBody e), UpdateDone]
               \<and> res_client (fileChangeListener imap env filename (Some c)) = Some c
               \<and> \<not> res_unhandled (fileChangeListener imap env filename (Some c))"
    by (rule sent) (simp add: res(2))
  show "getShallowDependencies (env_pk env) filename = Inr deps
           \<Longrightarrow> \<not> shallowEquivalent c filename deps
           \<Longrightarrow> snd (getDependencies (env_pk env) (c_platform c) (c_bundleEntry c))
                 = Inl (Thrown e)
           \<Longrightarrow> res_sent (fileChangeListener imap env filename (Some c))
                 = [UpdateStart, ErrorMsg (errorBody e), UpdateDone]
               \<and> res_client (fileChangeListener imap env filename (Some c)) = Some c
               \<and> \<not> res_unhandled (fileChangeListener imap env filename (Some c))"
    by (rule sent) (simp add: res(3))
  show "snd (resolveChange env filename (Some c)) = (Some c1, Inr resolutionResponse)
           \<Longrightarrow> obj_get (c_shallowDependencies c1) filename \<noteq> None
           \<Longrightarrow> buildBundleForHMR (env_pk env)
                 \<lparr>br_entryFile = c_bundleEntry c1, br_platform = c_platform c1,
                  br_resolutionResponse = resolutionResponse\<rparr>
                 (packagerHost (env_address env)) (port (env_address env)) = Inl (Thrown e)
           \<Longrightarrow> res_sent (fileChangeListener imap env filename (Some c))
                 = [UpdateStart, ErrorMsg (errorBody e), UpdateDone]
               \<and> res_client (fileChangeListener imap env filename (Some c)) = Some c1
               \<and> \<not> res_unhandled (fileChangeListener imap env filename (Some c))"
    by (rule sent) (simp add: bundler_rejection [OF assms(2)])
qed

section \<open>The HMR server: the inverse-dependency map of an update\<close>

lemma listener_update_map:
  "Update body \<in> set (res_sent (fileChangeListener imap env filename cl)) \<Longrightarrow>
   inverseDependencies body = imap"
proof (cases cl)
  case None
  assume "Update body \<in> set (res_sent (fileChangeListener imap env filename cl))"
  with None show ?thesis by (simp add: listener_closed)
next
  case (Some c)
  assume u: "Update body \<in> set (res_sent (fileChangeListener imap env filename cl))"
  show ?thesis
  proof (cases "res_unhandled (fileChangeListener imap env filename (Some c))")
    case True
    with listener_sent [of imap env filename c] u Some show ?thesis by simp
  next
    case False
    with listener_sent [of imap env filename c] obtain mid where
      "res_sent (fileChangeListener imap env filename (Some c)) = UpdateStart # mid @ [UpdateDone]"
      and "\<forall>body. Update body \<in> set mid \<longrightarrow> inverseDependencies body = imap"
      by auto
    with u \<open>cl = Some c\<close> show ?thesis by auto
  qed
qed

lemma onFileChange_listener:
  "hmr_listener (fst (onFileChange st ev)) = hmr_listener st
   \<or> hmr_listener (fst (onFileChange st ev)) = None"
  by (simp add: onFileChange_def Let_def disconnect_def split: option.splits)

lemma onFileChange_update_map:
  "hmr_listener st = Some imap \<or> hmr_listener st = None \<Longrightarrow>
   Update body \<in> set (snd (onFileChange st ev)) \<Longrightarrow> inverseDependencies body = imap"
  by (auto simp: onFileChange_def Let_def dest: listener_update_map split: option.splits)

lemma runChanges_update_map:
  "hmr_listener st = Some imap \<or> hmr_listener st = None \<Longrightarrow>
   Update body \<in> set (snd (runChanges st evs)) \<Longrightarrow> inverseDependencies body = imap"
proof (induction evs arbitrary: st)
  case Nil
  then show ?case by simp
next
  case (Cons ev evs)
  obtain st' sent where ofc: "onFileChange st ev = (st', sent)"
    by (cases "onFileChange st ev") auto
  obtain st'' sent' where rc: "runChanges st' evs = (st'', sent')"
    by (cases "runChanges st' evs") auto
  from onFileChange_listener [of st ev] ofc Cons.prems(1)
  have l': "hmr_listener st' = Some imap \<or> hmr_listener st' = None" by auto
  from Cons.prems(2) ofc rc have "Update body \<in> set sent \<or> Update body \<in> set sent'"
    by simp
  then show ?case
  proof
    assume "Update body \<in> set sent"
    with onFileChange_update_map [OF Cons.prems(1), of body ev] ofc show ?thesis by simp
  next
    assume "Update body \<in> set sent'"
    with Cons.IH [OF l'] rc show ?thesis by simp
  qed
qed

lemma onConnection_listener:
  "snd (getDependencies pk platform bundleEntry) = Inr snap \<Longrightarrow>
   hmr_listener (onConnection pk ws platform bundleEntry st0)
     = Some (snap_inverseDependenciesCache snap)"
  by (simp add: onConnection_def)

text \<open>
  Claim C4. After a connection whose snapshot has been built, every \<^verbatim>\<open>update\<close>
  message of every later change cycle carries the inverse-dependency map of that snapshot.
  A structural recompute replaces the session's dependency list, module index and
  shallow dependencies by those of the new snapshot and leaves every other field of the
  session, its \<^verbatim>\<open>inverseDependenciesCache\<close> included, as it was.
\<close>

theorem C4_inverse_map_of_connect_time:
  assumes "snd (getDependencies pk platform bundleEntry) = Inr snap"
  shows "(\<forall>body. Update body \<in> set (snd (runChanges (onConnection pk ws platform bundleEntry st0) evs))
            \<longrightarrow> inverseDependencies body = snap_inverseDependenciesCache snap)
       \<and> (getShallowDependencies (env_pk env) filename = Inr deps
            \<and> \<not> shallowEquivalent c filename deps
            \<and> snd (getDependencies (env_pk env) (c_platform c) (c_bundleEntry c)) = Inr snap'
            \<and> env_closedDuring env \<noteq> Some 1 \<and> env_closedDuring env \<noteq> Some 2
          \<longrightarrow> fst (snd (resolveChange env filename (Some c)))
                = Some (c\<lparr>c_dependenciesCache := snap_dependenciesCache snap',
                          c_dependenciesModulesCache := snap_dependenciesModulesCache snap',
                          c_shallowDependencies := snap_shallowDependencies snap'\<rparr>))"
proof -
  have 1: "\<forall>body. Update body \<in> set (snd (runChanges (onConnection pk ws platform bundleEntry st0) evs))
            \<longrightarrow> inverseDependencies body = snap_inverseDependenciesCache snap"
    using runChanges_update_map [of "onConnection pk ws platform bundleEntry st0"
        "snap_inverseDependenciesCache snap" _ evs]
      onConnection_listener [OF assms, of ws st0]
    by blast
  have 2: "fst (snd (resolveChange env filename (Some c)))
                = Some (c\<lparr>c_dependenciesCache := snap_dependenciesCache snap',
                          c_dependenciesModulesCache := snap_dependenciesModulesCache snap',
                          c_shallowDependencies := snap_shallowDependencies snap'\<rparr>)"
    if h: "getShallowDependencies (env_pk env) filename = Inr deps"
      "\<not> shallowEquivalent c filename deps"
      "snd (getDependencies (env_pk env) (c_platform c) (c_bundleEntry c)) = Inr snap'"
      "env_closedDuring env \<noteq> Some 1" "env_closedDuring env \<noteq> Some 2"
  proof -
    obtain calls2 where gd:
      "getDependencies (env_pk env) (c_platform c) (c_bundleEntry c) = (calls2, Inr snap')"
      using h(3) by (cases "getDependencies (env_pk env) (c_platform c) (c_bundleEntry c)") simp
    from resolveChange_structural [OF h(1,2) gd h(4,5)]
    show ?thesis by (simp add: invalidateCaches_def)
  qed
  from 1 2 show ?thesis by blast
qed

lemma example_connect:
  "onConnection pk_before 7 ''ios'' ''/A.js'' disconnect
   = \<lparr>hmr_client = Some example_client, hmr_listener = Some inv_before\<rparr>"
  by (simp add: onConnection_def getDependencies_def pk_before_def example_pk_def
      shallow_before_def example_client_def Let_def shallowEntry_def is_leaf_def
      moduleIndex_def shallowIndex_def promise_all_def mod_A_def mod_B_def source_module_def)

lemma example_snapshot_before:
  "snd (getDependencies pk_before ''ios'' ''/A.js'') =
     Inr \<lparr>snap_dependenciesCache = [''/A.js'', ''/B.js''],
          snap_dependenciesModulesCache = [(''A'', mod_A), (''B'', mod_B)],
          snap_shallowDependencies = [(''/A.js'', [''./B'']), (''/B.js'', [])],
          snap_inverseDependenciesCache = inv_before,
          snap_resolutionResponse =
            \<lparr>dependencies = [mod_A, mod_B], mainModuleId = ''/A.js''\<rparr>\<rparr>"
  by (simp add: getDependencies_def pk_before_def example_pk_def shallow_before_def Let_def
      shallowEntry_def is_leaf_def moduleIndex_def shallowIndex_def promise_all_def
      mod_A_def mod_B_def source_module_def)

lemma example_snapshot_after:
  "snd (getDependencies pk_after ''ios'' ''/A.js'') =
     Inr \<lparr>snap_dependenciesCache = [''/A.js'', ''/B.js'', ''/C.js''],
          snap_dependenciesModulesCache = [(''A'', mod_A), (''B'', mod_B), (''C'', mod_C)],
          snap_shallowDependencies =
            [(''/A.js'', [''./B'', ''./C'']), (''/B.js'', []), (''/C.js'', [])],
          snap_inverseDependenciesCache = inv_after,
          snap_resolutionResponse =
            \<lparr>dependencies = [mod_A, mod_B, mod_C], mainModuleId = ''/A.js''\<rparr>\<rparr>"
  by (simp add: getDependencies_def pk_after_def example_pk_def shallow_after_def Let_def
      shallowEntry_def is_leaf_def moduleIndex_def shallowIndex_def promise_all_def
      mod_A_def mod_B_def mod_C_def source_module_def)

lemma example_structural_sent:
  "res_sent (fileChangeListener inv_before (example_env pk_after None) ''/A.js''
               (Some example_client))
     = [UpdateStart,
        Update \<lparr>modules = [(''C'', ''code''), (''A'', ''code'')],
                inverseDependencies = inv_before,
                sourceURLs = [''/C.js'', ''/A.js''], sourceMappingURLs = []\<rparr>,
        UpdateDone]"
  by (simp add: fileChangeListener_def changePipeline_def buildUpdate_def
      resolveChange_def after_await_def Let_def example_env_def
      pk_after_def example_pk_def shallow_after_def shallowEquivalent_def arrayEquals_def
      or_empty_def obj_get_def example_client_def getDependencies_def shallowEntry_def
      is_leaf_def moduleIndex_def shallowIndex_def promise_all_def mod_A_def mod_B_def
      mod_C_def source_module_def copy_def modulesToUpdate_def obj_keys_def
      is_array_index_examples invalidateCaches_def packagerHost_cases example_bundle_def
      makeUpdate_def sendUpdate_def)

theorem C4_witness:
  "Update \<lparr>modules = [(''C'', ''code''), (''A'', ''code'')],
           inverseDependencies = inv_before,
           sourceURLs = [''/C.js'', ''/A.js''], sourceMappingURLs = []\<rparr>
     \<in> set (snd (runChanges (onConnection pk_before 7 ''ios'' ''/A.js'' disconnect)
                   [\<lparr>ev_filename = ''/A.js'', ev_env = example_env pk_after None\<rparr>]))
   \<and> inv_before \<noteq> inv_after
   \<and> fst (snd (resolveChange (example_env pk_after None) ''/A.js'' (Some example_client)))
       = Some (example_client
                 \<lparr>c_dependenciesCache := [''/A.js'', ''/B.js'', ''/C.js''],
                  c_dependenciesModulesCache := [(''A'', mod_A), (''B'', mod_B), (''C'', mod_C)],
                  c_shallowDependencies :=
                    [(''/A.js'', [''./B'', ''./C'']), (''/B.js'', []), (''/C.js'', [])]\<rparr>)"
proof -
  let ?env = "example_env pk_after None"
  let ?body = "\<lparr>modules = [(''C'', ''code''), (''A'', ''code'')],
           inverseDependencies = inv_before,
           sourceURLs = [''/C.js'', ''/A.js''], sourceMappingURLs = []\<rparr>"
  let ?snap' = "\<lparr>snap_dependenciesCache = [''/A.js'', ''/B.js'', ''/C.js''],
          snap_dependenciesModulesCache = [(''A'', mod_A), (''B'', mod_B), (''C'', mod_C)],
          snap_shallowDependencies =
            [(''/A.js'', [''./B'', ''./C'']), (''/B.js'', []), (''/C.js'', [])],
          snap_inverseDependenciesCache = inv_after,
          snap_resolutionResponse =
            \<lparr>dependencies = [mod_A, mod_B, mod_C], mainModuleId = ''/A.js''\<rparr>\<rparr>"
  have sent: "Update ?body
     \<in> set (snd (runChanges (onConnection pk_before 7 ''ios'' ''/A.js'' disconnect)
                   [\<lparr>ev_filename = ''/A.js'', ev_env = ?env\<rparr>]))"
    by (simp add: example_connect onFileChange_def Let_def example_structural_sent
        split: prod.splits)
  have ne: "inv_before \<noteq> inv_after"
    by (simp add: inv_before_def inv_after_def)
  have h: "getShallowDependencies (env_pk ?env) ''/A.js'' = Inr [''./B'', ''./C'']
      \<and> \<not> shallowEquivalent example_client ''/A.js'' [''./B'', ''./C'']
      \<and> snd (getDependencies (env_pk ?env) (c_platform example_client)
                (c_bundleEntry example_client)) = Inr ?snap'
      \<and> env_closedDuring ?env \<noteq> Some 1 \<and> env_closedDuring ?env \<noteq> Some 2"
    using example_snapshot_after
    by (simp add: example_env_def pk_after_def example_pk_def shallow_after_def
        shallowEquivalent_def arrayEquals_def or_empty_def obj_get_def example_client_def)
  note inst = C4_inverse_map_of_connect_time [OF example_snapshot_before,
      of 7 disconnect "[\<lparr>ev_filename = ''/A.js'', ev_env = ?env\<rparr>]" ?env "''/A.js''"
        "[''./B'', ''./C'']" example_client ?snap']
  from inst sent have "inverseDependencies ?body = inv_before" by simp
  moreover from inst h
  have "fst (snd (resolveChange ?env ''/A.js'' (Some example_client)))
       = Some (example_client
                 \<lparr>c_dependenciesCache := snap_dependenciesCache ?snap',
                  c_dependenciesModulesCache := snap_dependenciesModulesCache ?snap',
                  c_shallowDependencies := snap_shallowDependencies ?snap'\<rparr>)"
    by blast
  ultimately show ?thesis using sent ne by simp
qed

end
